theory Spec2Isabelle
  imports Complex_Main
begin

section \<open>Structo: the floor-beam and purlin design pages\<close>

text \<open>
  The two pages \<^verbatim>\<open>floor_beams.py\<close> and \<^verbatim>\<open>purlins.py\<close> read their inputs from the
  session, turn the loads into one linear load (or a critical load case), compute the
  governing moment and shear and ask \<^verbatim>\<open>select_optimal_section\<close> for a section.
  Python floats are modelled as reals (no rounding, no overflow); a raised exception is a
  value \<open>Inl e\<close> of a sum type and aborts everything after it. The functions the pages
  import from \<^verbatim>\<open>utils.calculations\<close> are not among the sources: the pages are modelled
  relative to them, and a model of them from the specification is given afterwards.
\<close>

subsection \<open>Errors\<close>

text \<open>
  \<open>ZeroDivisionError\<close> is what Python raises for a float division by zero.
  \<open>InvalidUnit\<close>, \<open>UnsupportedPattern\<close> and \<open>InvalidInput\<close> are the failures the
  specification names for the imported functions.
\<close>

datatype error = ZeroDivisionError | InvalidUnit | UnsupportedPattern | InvalidInput

definition bind_err :: "error + 'a \<Rightarrow> ('a \<Rightarrow> error + 'b) \<Rightarrow> error + 'b" where
  "bind_err r f = (case r of Inl e \<Rightarrow> Inl e | Inr v \<Rightarrow> f v)"

text \<open>Python's \<^verbatim>\<open>a / b\<close> on floats.\<close>

definition py_div :: "real \<Rightarrow> real \<Rightarrow> error + real" where
  "py_div a b = (if b = 0 then Inl ZeroDivisionError else Inr (a / b))"

subsection \<open>Strings\<close>

text \<open>
  A Python string is modelled as a list of 8-bit characters holding code points below 256,
  which covers the unit vocabulary of the pages: the superscript two of \<^verbatim>\<open>kN/m2\<close> is the
  code point 178. \<open>lower\<close> is \<^verbatim>\<open>str.lower\<close> on that range and \<open>str_in p s\<close> is
  Python's \<^verbatim>\<open>p in s\<close>.
\<close>

text \<open>
  The upper-case letters are the code points 65 to 90 and, above ASCII, 192 to 222 without
  215; each becomes lower case by adding 32, which sets the bit of weight 32.
\<close>

definition lower_char :: "char \<Rightarrow> char" where
  "lower_char c =
     (let n = (of_char c :: nat)
      in if (65 \<le> n \<and> n \<le> 90) \<or> (192 \<le> n \<and> n \<le> 222 \<and> n \<noteq> 215)
         then (case c of Char b0 b1 b2 b3 b4 b5 b6 b7 \<Rightarrow> Char b0 b1 b2 b3 b4 True b6 b7)
         else c)"

definition lower :: "string \<Rightarrow> string" where
  "lower s = map lower_char s"

fun starts_with :: "string \<Rightarrow> string \<Rightarrow> bool" where
  "starts_with [] s = True"
| "starts_with (p # ps) [] = False"
| "starts_with (p # ps) (c # cs) = (p = c \<and> starts_with ps cs)"

fun str_in :: "string \<Rightarrow> string \<Rightarrow> bool" where
  "str_in p [] = (p = [])"
| "str_in p (c # cs) = (starts_with p (c # cs) \<or> str_in p cs)"

definition superscript_two :: char where
  "superscript_two = Char False True False False True True False True"

text \<open>The six entries of the unit select box.\<close>

definition unit_kN :: string where "unit_kN = ''kN''"
definition unit_kN_m :: string where "unit_kN_m = ''kN/m''"
definition unit_kg :: string where "unit_kg = ''kg''"
definition unit_kg_m :: string where "unit_kg_m = ''kg/m''"
definition unit_kg_m2 :: string where "unit_kg_m2 = ''kg/m'' @ [superscript_two]"

subsection \<open>The data the pages handle\<close>

text \<open>
  The section-properties dictionary of a result, with the keys the pages display.
\<close>

record section_properties =
  name :: string
  height :: real
  width :: real
  web_thickness :: real
  flange_thickness :: real
  area :: real
  Ix :: real
  Zx :: real

text \<open>
  The status strings of the result dictionaries: \<^verbatim>\<open>"Safe"\<close>, \<^verbatim>\<open>"Unsafe"\<close> and, for the
  buckling check only, \<^verbatim>\<open>"Cannot determine - missing section properties"\<close>.
\<close>

datatype status = Safe | Unsafe | Cannot_determine

datatype classification = Compact | Non_compact

text \<open>
  The four check dictionaries and the result dictionary of \<^verbatim>\<open>select_optimal_section\<close>,
  with the keys the pages read; \<open>catalog_exhausted\<close> is the flag of the specification.
\<close>

record capacity_result =
  cap_status :: status
  moment_capacity :: real
  safety_factor :: real
  cap_utilization :: real

record compactness_result =
  classification :: classification
  flange_ratio :: real
  flange_compact_limit :: real
  flange_status :: status
  web_ratio :: real
  web_compact_limit :: real
  web_status :: status

record ltb_result =
  ltb_status :: status
  ltb_critical_moment :: real
  design_capacity :: real
  ltb_utilization :: real

record deflection_result =
  defl_status :: status
  allowable_deflection :: real
  limit_ratio :: real
  defl_utilization :: real

record results =
  section_properties :: section_properties
  deflection :: real
  capacity_check :: capacity_result
  compactness_check :: compactness_result
  ltb_check :: ltb_result
  deflection_check :: deflection_result
  overall_status :: status
  catalog_exhausted :: bool

text \<open>
  An entry of the session's list of additional loads: the dictionary with the keys
  \<^verbatim>\<open>value\<close>, \<^verbatim>\<open>unit\<close> and \<^verbatim>\<open>case\<close>.
\<close>

record load =
  load_value :: real
  load_unit :: string
  load_case :: string

text \<open>
  The dictionary \<^verbatim>\<open>loads\<close> the purlin page builds, and the dictionary
  \<^verbatim>\<open>calculate_critical_moment\<close> returns (the page reads its keys \<^verbatim>\<open>critical_moment\<close>
  and \<^verbatim>\<open>critical_case\<close>; the governing pattern is the third component the
  specification gives it).
\<close>

record loads =
  dead :: real
  live :: real
  wind :: real
  maintenance :: real
  additional :: real

record moment_results =
  critical_moment :: real
  critical_case :: string
  governing_pattern :: string

subsection \<open>The imported functions\<close>

text \<open>
  What the pages import from \<^verbatim>\<open>utils.calculations\<close> and \<^verbatim>\<open>utils.constants\<close> and use in
  \<^verbatim>\<open>calculate_results\<close>. Their code is not among the sources, so the pages take them as
  a parameter: each is a function of its arguments that returns a value or fails.
\<close>

record helpers =
  KG_TO_KN :: real
  convert_to_kn :: "real \<Rightarrow> string \<Rightarrow> error + real"
  calculate_moment :: "real \<Rightarrow> real \<Rightarrow> string \<Rightarrow> error + real"
  calculate_shear_force :: "real \<Rightarrow> real \<Rightarrow> string \<Rightarrow> error + real"
  calculate_wind_load :: "real \<Rightarrow> real \<Rightarrow> real \<Rightarrow> error + real"
  calculate_critical_moment :: "loads \<Rightarrow> real \<Rightarrow> error + moment_results"
  select_optimal_section ::
    "real \<Rightarrow> real \<Rightarrow> string \<Rightarrow> string \<Rightarrow> string \<Rightarrow> string \<Rightarrow> error + results"

subsection \<open>Additional loads (both pages)\<close>

text \<open>
  The loop over the additional loads, the same in both pages: convert the value, divide
  it by the span when the lower-cased unit holds no \<^verbatim>\<open>m\<close>, and add it to the total.
\<close>

fun additional_loop :: "helpers \<Rightarrow> real \<Rightarrow> real \<Rightarrow> load list \<Rightarrow> error + real" where
  "additional_loop h L tot [] = Inr tot"
| "additional_loop h L tot (l # ls) =
     bind_err (convert_to_kn h (load_value l) (load_unit l)) (\<lambda>v.
       if \<not> str_in ''m'' (lower (load_unit l))
       then bind_err (py_div v L) (\<lambda>v'. additional_loop h L (tot + v') ls)
       else additional_loop h L (tot + v) ls)"

subsection \<open>The floor-beam page\<close>

text \<open>
  The session values \<^verbatim>\<open>calculate_results\<close> of \<^verbatim>\<open>floor_beams.py\<close> reads (the field
  \<open>fb_x\<close> is the session key \<^verbatim>\<open>x\<close>), and the dictionary it stores: the echo of the inputs
  (grouped in one field), the total load, the moment, the shear and the selector's results.
  The diagrams are images made from these values and are left out.
\<close>

record floor_input =
  fb_span :: real
  fb_dead_load :: real
  fb_floor_cover_load :: real
  fb_live_load :: real
  fb_is_accessible :: bool
  fb_chord_angle :: real
  fb_steel_grade :: string
  fb_design_code :: string
  fb_supported_beam_reaction :: real
  fb_additional_loads :: "load list"

record floor_output =
  fb_inputs :: floor_input
  fb_total_load :: real
  fb_moment :: real
  fb_shear :: real
  fb_results :: results

text \<open>The tributary width the page assumes, in metres.\<close>

definition beam_width :: real where
  "beam_width = 1"

text \<open>
  The dead load with the supported-beam reaction: a positive reaction is divided by the
  span and added.
\<close>

definition floor_dead_load :: "floor_input \<Rightarrow> error + real" where
  "floor_dead_load s =
     (if fb_supported_beam_reaction s > 0
      then bind_err (py_div (fb_supported_beam_reaction s) (fb_span s))
             (\<lambda>equivalent_reaction_load. Inr (fb_dead_load s + equivalent_reaction_load))
      else Inr (fb_dead_load s))"

definition floor_calculate_results :: "helpers \<Rightarrow> floor_input \<Rightarrow> error + floor_output" where
  "floor_calculate_results h s =
     (let total_floor_cover_load = fb_floor_cover_load s * beam_width;
          total_live_load = fb_live_load s * beam_width
      in bind_err (floor_dead_load s) (\<lambda>total_dead_load.
         bind_err (additional_loop h (fb_span s) 0 (fb_additional_loads s))
           (\<lambda>additional_load_total.
         let total_load = total_dead_load + total_floor_cover_load + total_live_load
                          + additional_load_total
         in bind_err (calculate_moment h (fb_span s) total_load ''uniform'') (\<lambda>max_moment.
            bind_err (calculate_shear_force h (fb_span s) total_load ''uniform'') (\<lambda>max_shear.
            bind_err (select_optimal_section h max_moment (fb_span s) ''uniform''
                        (fb_steel_grade s) (lower (fb_design_code s)) ''I-Beam'')
              (\<lambda>res.
            Inr \<lparr>fb_inputs = s, fb_total_load = total_load, fb_moment = max_moment,
                 fb_shear = max_shear, fb_results = res\<rparr>))))))"

subsection \<open>The purlin page\<close>

text \<open>
  The session values \<^verbatim>\<open>calculate_results\<close> of \<^verbatim>\<open>purlins.py\<close> reads (under their session
  keys) and the dictionary it stores: the echo of the inputs (grouped in one field), the
  moment, the shear, the critical case, the load type and the selector's results.
\<close>

record purlin_input =
  purlin_span :: real
  purlin_dead_load :: real
  purlin_live_load :: real
  purlin_is_accessible :: bool
  purlin_maintenance_load :: real
  purlin_wind_load :: real
  purlin_chord_angle :: real
  purlin_steel_grade :: string
  purlin_design_code :: string
  purlin_additional_loads :: "load list"

record purlin_output =
  pr_inputs :: purlin_input
  pr_moment :: real
  pr_shear :: real
  pr_critical_case :: string
  pr_load_type :: string
  pr_results :: results

text \<open>The purlin spacing the page assumes, in metres.\<close>

definition purlin_spacing :: real where
  "purlin_spacing = 3 / 2"

text \<open>
  The dictionary \<^verbatim>\<open>loads\<close> of the page, from the inputs, the wind load per length and
  the total of the additional loads.
\<close>

definition purlin_loads :: "helpers \<Rightarrow> purlin_input \<Rightarrow> real \<Rightarrow> real \<Rightarrow> loads" where
  "purlin_loads h s total_wind_load additional_load_total =
     \<lparr>dead = purlin_dead_load s,
      live = purlin_live_load s,
      wind = total_wind_load,
      maintenance = purlin_maintenance_load s * KG_TO_KN h,
      additional = additional_load_total\<rparr>"

text \<open>
  The uniform load of the critical case, rebuilt by the page from the case's name with
  substring tests, then the additional loads.
\<close>

definition total_uniform_load :: "loads \<Rightarrow> real \<Rightarrow> string \<Rightarrow> error + real" where
  "total_uniform_load ld L critical_case_str =
     (let t0 = (0::real);
          t1 = (if str_in ''Dead + Live'' critical_case_str then t0 + (dead ld + live ld) else t0)
      in bind_err
           (if str_in ''Maintenance'' critical_case_str \<and> \<not> str_in ''point'' critical_case_str
            then bind_err (py_div (maintenance ld) L) (\<lambda>q. Inr (t1 + q))
            else Inr t1)
           (\<lambda>t2.
              let t3 = (if str_in ''Wind'' critical_case_str then t2 + wind ld else t2)
              in Inr (t3 + additional ld)))"

text \<open>
  The maximum shear and the load type of the critical case: half of the maintenance load
  for the point-load case, the beam analysis of the rebuilt uniform load otherwise.
\<close>

definition purlin_shear :: "helpers \<Rightarrow> loads \<Rightarrow> real \<Rightarrow> string \<Rightarrow> error + real \<times> string" where
  "purlin_shear h ld L crit =
     (if crit = ''Maintenance (point load)''
      then Inr (maintenance ld / 2, ''point_center'')
      else bind_err (total_uniform_load ld L crit) (\<lambda>w.
           bind_err (calculate_shear_force h L w ''uniform'') (\<lambda>max_shear.
           Inr (max_shear, ''uniform''))))"

definition purlin_calculate_results :: "helpers \<Rightarrow> purlin_input \<Rightarrow> error + purlin_output" where
  "purlin_calculate_results h s =
     bind_err (calculate_wind_load h (purlin_span s) (purlin_wind_load s) purlin_spacing)
       (\<lambda>total_wind_load.
     bind_err (additional_loop h (purlin_span s) 0 (purlin_additional_loads s))
       (\<lambda>additional_load_total.
     let ld = purlin_loads h s total_wind_load additional_load_total
     in bind_err (calculate_critical_moment h ld (purlin_span s)) (\<lambda>moment_results.
        let max_moment = critical_moment moment_results;
            crit = critical_case moment_results
        in bind_err (purlin_shear h ld (purlin_span s) crit) (\<lambda>(max_shear, load_type).
           bind_err (select_optimal_section h max_moment (purlin_span s) load_type
                       (purlin_steel_grade s) (lower (purlin_design_code s)) ''Channel'')
             (\<lambda>res.
           Inr \<lparr>pr_inputs = s, pr_moment = max_moment, pr_shear = max_shear,
                pr_critical_case = crit, pr_load_type = load_type, pr_results = res\<rparr>)))))"

section \<open>The imported functions as the specification describes them\<close>

subsection \<open>Static configuration\<close>

text \<open>
  The constants and tables of \<^verbatim>\<open>utils.constants\<close> and \<^verbatim>\<open>utils.calculations\<close> are not
  among the sources. They are parameters of the model: the mass-to-force constant, the
  elastic modulus, the yield stress of a grade under a design code, the section table of a
  design code and family (given as its first entry and the rest, so it is never empty),
  the compact-limit coefficients, the critical buckling moment of a section (\<open>None\<close> when
  the section lacks the properties it needs), the reduction factor of the buckling check
  and the deflection of a candidate section under the governing load.
\<close>

record config =
  mass_to_force :: real
  E_modulus :: real
  yield_stress :: "string \<Rightarrow> string \<Rightarrow> real option"
  sections_for :: "string \<Rightarrow> string \<Rightarrow> section_properties \<times> section_properties list"
  flange_coefficient :: "string \<Rightarrow> real"
  web_coefficient :: "string \<Rightarrow> real"
  buckling_moment :: "section_properties \<Rightarrow> real \<Rightarrow> real \<Rightarrow> real option"
  buckling_factor :: "string \<Rightarrow> real"
  candidate_deflection :: "section_properties \<Rightarrow> real \<Rightarrow> real \<Rightarrow> string \<Rightarrow> real"

subsection \<open>Unit conversion and beam analysis\<close>

text \<open>
  Modelled from the spec: \<^verbatim>\<open>convert_to_kn(value, unit)\<close> is not among the sources. The
  specification (UnitConverter) converts mass units to force with the fixed constant,
  leaves force units as they are, and fails with \<open>InvalidUnit\<close> when the unit matches no
  token of the vocabulary (case-insensitive substring match). The division by the span is
  done by the pages themselves.
\<close>

definition spec_convert_to_kn :: "config \<Rightarrow> real \<Rightarrow> string \<Rightarrow> error + real" where
  "spec_convert_to_kn cfg v u =
     (if str_in ''kg'' (lower u) then Inr (v * mass_to_force cfg)
      else if str_in ''kn'' (lower u) then Inr v
      else Inl InvalidUnit)"

text \<open>
  Modelled from the spec: \<^verbatim>\<open>calculate_moment(span, load, load_type)\<close> and
  \<^verbatim>\<open>calculate_shear_force(span, load, load_type)\<close> are not among the sources. The
  specification (BeamAnalysis) gives the closed forms for the two patterns and
  \<open>UnsupportedPattern\<close> for any other tag; the tags are the ones the pages pass.
\<close>

definition spec_calculate_moment :: "real \<Rightarrow> real \<Rightarrow> string \<Rightarrow> error + real" where
  "spec_calculate_moment L load load_type =
     (if load_type = ''uniform'' then Inr (load * L\<^sup>2 / 8)
      else if load_type = ''point_center'' then Inr (load * L / 4)
      else Inl UnsupportedPattern)"

definition spec_calculate_shear_force :: "real \<Rightarrow> real \<Rightarrow> string \<Rightarrow> error + real" where
  "spec_calculate_shear_force L load load_type =
     (if load_type = ''uniform'' then Inr (load * L / 2)
      else if load_type = ''point_center'' then Inr (load / 2)
      else Inl UnsupportedPattern)"

text \<open>
  Modelled from the spec: \<^verbatim>\<open>calculate_wind_load(span, wind_load, purlin_spacing)\<close> is not
  among the sources. The specification converts a per-area load to a per-length load by
  the fixed purlin spacing.
\<close>

definition spec_calculate_wind_load :: "real \<Rightarrow> real \<Rightarrow> real \<Rightarrow> error + real" where
  "spec_calculate_wind_load L wind_load spacing = Inr (wind_load * spacing)"

subsection \<open>The capacity checker and the section selector\<close>

text \<open>
  Modelled from the spec: \<^verbatim>\<open>select_optimal_section\<close> and the checks it runs are not among
  the sources; the definitions below follow the specification's CapacityChecker and
  SectionSelector. The specification gives formulas and no failure behaviour for them, so
  their divisions are HOL's total division.
\<close>

text \<open>
  Modelled from the spec: a check is Safe exactly when its condition holds and Unsafe
  otherwise.
\<close>

definition safe_if :: "bool \<Rightarrow> status" where
  "safe_if b = (if b then Safe else Unsafe)"

text \<open>
  Modelled from the spec: the bending-capacity check. The capacity is the section modulus
  times the yield stress, the utilization is the moment over the capacity, the check is
  Safe when the utilization is at most 1, and the safety factor is the capacity over the
  moment.
\<close>

definition bending_check :: "section_properties \<Rightarrow> real \<Rightarrow> real \<Rightarrow> capacity_result" where
  "bending_check sec fy moment =
     (let capacity = Zx sec * fy; utilization = moment / capacity
      in \<lparr>cap_status = safe_if (utilization \<le> 1), moment_capacity = capacity,
          safety_factor = capacity / moment, cap_utilization = utilization\<rparr>)"

text \<open>
  Modelled from the spec: the compactness check. The flange ratio is half the width over
  the flange thickness, the web ratio the height less two flange thicknesses over the web
  thickness; each is compared with a limit that is a coefficient of the design code times
  the square root of the elastic modulus over the yield stress. The class is Compact when
  both ratios are within their limits; each axis has its own status.
\<close>

definition compactness :: "config \<Rightarrow> string \<Rightarrow> section_properties \<Rightarrow> real \<Rightarrow> compactness_result" where
  "compactness cfg code sec fy =
     (let fr = (width sec / 2) / flange_thickness sec;
          wr = (height sec - 2 * flange_thickness sec) / web_thickness sec;
          fl = flange_coefficient cfg code * sqrt (E_modulus cfg / fy);
          wl = web_coefficient cfg code * sqrt (E_modulus cfg / fy)
      in \<lparr>classification = (if fr \<le> fl \<and> wr \<le> wl then Compact else Non_compact),
          flange_ratio = fr, flange_compact_limit = fl, flange_status = safe_if (fr \<le> fl),
          web_ratio = wr, web_compact_limit = wl, web_status = safe_if (wr \<le> wl)\<rparr>)"

text \<open>
  Modelled from the spec: the lateral-torsional buckling check. The design capacity is the
  lesser of the bending capacity and the critical moment reduced by the factor of the
  design code, the utilization is the moment over it; when the section lacks the
  properties the formula needs, the status is
  \<^verbatim>\<open>"Cannot determine - missing section properties"\<close>.
\<close>

definition buckling_check ::
  "config \<Rightarrow> string \<Rightarrow> section_properties \<Rightarrow> real \<Rightarrow> real \<Rightarrow> real \<Rightarrow> ltb_result" where
  "buckling_check cfg code sec fy moment L =
     (case buckling_moment cfg sec L fy of
        None \<Rightarrow> \<lparr>ltb_status = Cannot_determine, ltb_critical_moment = 0,
                 design_capacity = 0, ltb_utilization = 0\<rparr>
      | Some mcr \<Rightarrow>
          (let capacity = min (Zx sec * fy) (buckling_factor cfg code * mcr);
               utilization = moment / capacity
           in \<lparr>ltb_status = safe_if (utilization \<le> 1), ltb_critical_moment = mcr,
               design_capacity = capacity, ltb_utilization = utilization\<rparr>))"

text \<open>
  Modelled from the spec: the ratio of the deflection limit, 360 for floor beams and 240
  for purlins. The member type reaches the selector only as the section family the page
  passes: \<^verbatim>\<open>"I-Beam"\<close> from the floor-beam page, \<^verbatim>\<open>"Channel"\<close> from the purlin page.
\<close>

definition deflection_limit :: "string \<Rightarrow> real" where
  "deflection_limit section_type = (if section_type = ''Channel'' then 240 else 360)"

text \<open>
  Modelled from the spec: the deflection check. The allowable deflection is the span over
  the ratio, the utilization is the actual deflection over the allowable one, and the check
  is Safe when the utilization is at most 1.
\<close>

definition deflection_check_with :: "real \<Rightarrow> real \<Rightarrow> real \<Rightarrow> deflection_result" where
  "deflection_check_with ratio L actual =
     (let allowable = L / ratio; utilization = actual / allowable
      in \<lparr>defl_status = safe_if (utilization \<le> 1), allowable_deflection = allowable,
          limit_ratio = ratio, defl_utilization = utilization\<rparr>)"

text \<open>
  Modelled from the spec: the deflection check of a member, with the ratio of its type.
\<close>

definition check_deflection :: "string \<Rightarrow> real \<Rightarrow> real \<Rightarrow> deflection_result" where
  "check_deflection section_type L actual =
     deflection_check_with (deflection_limit section_type) L actual"

text \<open>
  Modelled from the spec: the overall status is Safe exactly when all four checks report
  Safe, where the buckling status \<^verbatim>\<open>"Cannot determine - missing section properties"\<close>
  counts as Safe. The compactness check reports Safe when both of its axes do.
\<close>

definition compactness_safe :: "compactness_result \<Rightarrow> bool" where
  "compactness_safe c = (flange_status c = Safe \<and> web_status c = Safe)"

definition ltb_counts_safe :: "ltb_result \<Rightarrow> bool" where
  "ltb_counts_safe l = (ltb_status l = Safe \<or> ltb_status l = Cannot_determine)"

definition all_checks_safe ::
  "capacity_result \<Rightarrow> compactness_result \<Rightarrow> ltb_result \<Rightarrow> deflection_result \<Rightarrow> bool" where
  "all_checks_safe c k l d =
     (cap_status c = Safe \<and> compactness_safe k \<and> ltb_counts_safe l \<and> defl_status d = Safe)"

text \<open>
  Modelled from the spec: the four checks of one candidate section and its overall
  status.
\<close>

definition check_section ::
  "config \<Rightarrow> real \<Rightarrow> real \<Rightarrow> real \<Rightarrow> string \<Rightarrow> string \<Rightarrow> string \<Rightarrow> section_properties \<Rightarrow> results" where
  "check_section cfg fy moment L load_type code section_type sec =
     (let d = candidate_deflection cfg sec moment L load_type;
          c = bending_check sec fy moment;
          k = compactness cfg code sec fy;
          l = buckling_check cfg code sec fy moment L;
          dc = check_deflection section_type L d
      in \<lparr>section_properties = sec, deflection = d, capacity_check = c,
          compactness_check = k, ltb_check = l, deflection_check = dc,
          overall_status = safe_if (all_checks_safe c k l dc),
          catalog_exhausted = False\<rparr>)"

text \<open>
  Modelled from the spec: the selector walks the table in ascending order and stops at
  the first candidate whose overall status is Safe. When no candidate is Safe it returns
  the result of the last candidate with the overall status set to Unsafe and the flag
  \<open>catalog_exhausted\<close> set.
\<close>

fun select_loop :: "(section_properties \<Rightarrow> results) \<Rightarrow> section_properties \<Rightarrow>
    section_properties list \<Rightarrow> results" where
  "select_loop chk c [] =
     (let r = chk c
      in if overall_status r = Safe then r
         else r\<lparr>overall_status := Unsafe, catalog_exhausted := True\<rparr>)"
| "select_loop chk c (d # ds) =
     (let r = chk c in if overall_status r = Safe then r else select_loop chk d ds)"

text \<open>
  Modelled from the spec: \<^verbatim>\<open>select_optimal_section\<close> with the arguments the pages pass.
  A pattern tag outside the two patterns is \<open>UnsupportedPattern\<close>, a steel grade that
  the design code's table does not hold is \<open>InvalidInput\<close>.
\<close>

definition spec_select_optimal_section ::
  "config \<Rightarrow> real \<Rightarrow> real \<Rightarrow> string \<Rightarrow> string \<Rightarrow> string \<Rightarrow> string \<Rightarrow> error + results" where
  "spec_select_optimal_section cfg moment L load_type steel_grade code section_type =
     (if load_type \<noteq> ''uniform'' \<and> load_type \<noteq> ''point_center'' then Inl UnsupportedPattern
      else case yield_stress cfg code steel_grade of
        None \<Rightarrow> Inl InvalidInput
      | Some fy \<Rightarrow>
          (case sections_for cfg code section_type of
             (c, cs) \<Rightarrow>
               Inr (select_loop
                      (check_section cfg fy moment L load_type code section_type) c cs)))"

subsection \<open>The load combiner\<close>

text \<open>
  Modelled from the spec: \<^verbatim>\<open>calculate_critical_moment(loads, span)\<close> is not among the
  sources. The specification (LoadCombiner) enumerates, in this order, Dead+Live,
  Dead+Live+Wind, Maintenance alone as a point load at midspan, and Dead+Live with the
  maintenance load distributed over the span; the additional load is part of every
  linear-load sum, the maintenance-alone case is the isolated point load; the moment of
  each comes from the beam analysis, the largest moment is critical and on a tie the
  earlier combination stays. The display names are the ones the purlin page tests for.
  The specification gives no failure behaviour for the distribution over the span, so
  that division is HOL's total division.
\<close>

text \<open>
  Modelled from the spec: the first combination, and the later ones in their order; each
  is a display name, a load and a pattern tag.
\<close>

definition first_combination :: "loads \<Rightarrow> string \<times> real \<times> string" where
  "first_combination ld = (''Dead + Live'', dead ld + live ld + additional ld, ''uniform'')"

definition later_combinations :: "loads \<Rightarrow> real \<Rightarrow> (string \<times> real \<times> string) list" where
  "later_combinations ld L =
     [(''Dead + Live + Wind'', dead ld + live ld + wind ld + additional ld, ''uniform''),
      (''Maintenance (point load)'', maintenance ld, ''point_center''),
      (''Dead + Live + Maintenance'',
         dead ld + live ld + maintenance ld / L + additional ld, ''uniform'')]"

text \<open>
  Modelled from the spec: the moment of a combination, from the beam analysis.
\<close>

definition combination_moment :: "real \<Rightarrow> string \<times> real \<times> string \<Rightarrow> error + moment_results" where
  "combination_moment L c =
     (case c of (nm, w, pat) \<Rightarrow>
        bind_err (spec_calculate_moment L w pat) (\<lambda>m.
          Inr \<lparr>critical_moment = m, critical_case = nm, governing_pattern = pat\<rparr>))"

text \<open>
  Modelled from the spec: a later combination becomes critical only when its moment is
  strictly larger than the moment of the critical one so far.
\<close>

fun pick_critical ::
  "real \<Rightarrow> moment_results \<Rightarrow> (string \<times> real \<times> string) list \<Rightarrow> error + moment_results" where
  "pick_critical L best [] = Inr best"
| "pick_critical L best (c # cs) =
     bind_err (combination_moment L c) (\<lambda>r.
       pick_critical L (if critical_moment r > critical_moment best then r else best) cs)"

text \<open>
  Modelled from the spec: the critical combination of the four.
\<close>

definition spec_calculate_critical_moment :: "loads \<Rightarrow> real \<Rightarrow> error + moment_results" where
  "spec_calculate_critical_moment ld L =
     bind_err (combination_moment L (first_combination ld)) (\<lambda>best.
       pick_critical L best (later_combinations ld L))"

subsection \<open>The imported functions, together\<close>

text \<open>
  Modelled from the spec: the functions above as the parameter of the pages.
\<close>

definition spec_helpers :: "config \<Rightarrow> helpers" where
  "spec_helpers cfg =
     \<lparr>KG_TO_KN = mass_to_force cfg,
      convert_to_kn = spec_convert_to_kn cfg,
      calculate_moment = spec_calculate_moment,
      calculate_shear_force = spec_calculate_shear_force,
      calculate_wind_load = spec_calculate_wind_load,
      calculate_critical_moment = spec_calculate_critical_moment,
      select_optimal_section = spec_select_optimal_section cfg\<rparr>"

section \<open>Notions used in the statements, and concrete inputs\<close>

subsection \<open>Notions used in the statements\<close>

text \<open>
  The computed part of what a page stores, without the echo of its inputs.
\<close>

definition floor_computed :: "floor_output \<Rightarrow> real \<times> real \<times> real \<times> results" where
  "floor_computed out = (fb_total_load out, fb_moment out, fb_shear out, fb_results out)"

definition purlin_computed :: "purlin_output \<Rightarrow> real \<times> real \<times> string \<times> string \<times> results" where
  "purlin_computed out =
     (pr_moment out, pr_shear out, pr_critical_case out, pr_load_type out, pr_results out)"

text \<open>Two additional loads that differ at most in their \<^verbatim>\<open>case\<close> entry.\<close>

definition same_value_unit :: "load \<Rightarrow> load \<Rightarrow> bool" where
  "same_value_unit a b = (load_value a = load_value b \<and> load_unit a = load_unit b)"

text \<open>A unit that \<open>spec_convert_to_kn\<close> accepts.\<close>

definition recognised_unit :: "string \<Rightarrow> bool" where
  "recognised_unit u = (str_in ''kg'' (lower u) \<or> str_in ''kn'' (lower u))"

text \<open>
  All four checks of a result report Safe, the buckling check's
  \<^verbatim>\<open>"Cannot determine - missing section properties"\<close> counting as Safe.
\<close>

definition reports_all_safe :: "results \<Rightarrow> bool" where
  "reports_all_safe r =
     (cap_status (capacity_check r) = Safe
      \<and> flange_status (compactness_check r) = Safe
      \<and> web_status (compactness_check r) = Safe
      \<and> (ltb_status (ltb_check r) = Safe \<or> ltb_status (ltb_check r) = Cannot_determine)
      \<and> defl_status (deflection_check r) = Safe)"

subsection \<open>A concrete configuration and concrete inputs\<close>

text \<open>
  An illustrative configuration with a table of two sections, used to run the pages on
  concrete inputs.
\<close>

definition sec_small :: section_properties where
  "sec_small = \<lparr>name = ''S100'', height = 100, width = 50, web_thickness = 5,
     flange_thickness = 8, area = 1000, Ix = 1, Zx = 1 / 10\<rparr>"

definition sec_large :: section_properties where
  "sec_large = \<lparr>name = ''S200'', height = 200, width = 75, web_thickness = 6,
     flange_thickness = 10, area = 2000, Ix = 4, Zx = 1 / 2\<rparr>"

definition cfg_ex :: config where
  "cfg_ex = \<lparr>mass_to_force = 981 / 100000,
     E_modulus = 216000,
     yield_stress = (\<lambda>code grade. if grade = ''St37'' then Some 240 else None),
     sections_for = (\<lambda>code section_type. (sec_small, [sec_large])),
     flange_coefficient = (\<lambda>code. 38 / 100),
     web_coefficient = (\<lambda>code. 376 / 100),
     buckling_moment = (\<lambda>sec L fy. Some (2 * Zx sec * fy)),
     buckling_factor = (\<lambda>code. 9 / 10),
     candidate_deflection = (\<lambda>sec moment L load_type. moment / (10000 * Ix sec))\<rparr>"

text \<open>The imported functions as the specification describes them, over that configuration.\<close>

definition h_ex :: helpers where
  "h_ex = spec_helpers cfg_ex"

text \<open>
  The floor-beam page's default inputs with a supported-beam reaction of 5 kN and one
  additional load of 10 kN.
\<close>

definition fb_ex :: floor_input where
  "fb_ex = \<lparr>fb_span = 5, fb_dead_load = 1, fb_floor_cover_load = 3 / 2,
     fb_live_load = 5 / 2, fb_is_accessible = True, fb_chord_angle = 0,
     fb_steel_grade = ''St37'', fb_design_code = ''Egyptian Code'',
     fb_supported_beam_reaction = 5,
     fb_additional_loads = [\<lparr>load_value = 10, load_unit = unit_kN, load_case = ''Case A''\<rparr>]\<rparr>"

text \<open>The same inputs with a span of zero.\<close>

definition fb_zero_span :: floor_input where
  "fb_zero_span = fb_ex\<lparr>fb_span := 0\<rparr>"

text \<open>The purlin page's default inputs with one additional load of 0.1 kN/m.\<close>

definition pr_ex :: purlin_input where
  "pr_ex = \<lparr>purlin_span = 6, purlin_dead_load = 1 / 2, purlin_live_load = 1,
     purlin_is_accessible = False, purlin_maintenance_load = 100, purlin_wind_load = 7 / 10,
     purlin_chord_angle = 15, purlin_steel_grade = ''St37'',
     purlin_design_code = ''Egyptian Code'',
     purlin_additional_loads =
       [\<lparr>load_value = 1 / 10, load_unit = unit_kN_m, load_case = ''Case A''\<rparr>]\<rparr>"

text \<open>
  A purlin that carries nothing but the maintenance load of 100 kg and one additional load
  of 0.1 kN/m, so that the maintenance point load governs.
\<close>

definition pr_maintenance :: purlin_input where
  "pr_maintenance = pr_ex\<lparr>purlin_dead_load := 0, purlin_live_load := 0, purlin_wind_load := 0\<rparr>"


text \<open>The purlin page's default inputs with a span of zero and one additional load of 10 kN.\<close>

definition pr_zero_span :: purlin_input where
  "pr_zero_span = pr_ex\<lparr>purlin_span := 0,
     purlin_additional_loads :=
       [\<lparr>load_value = 10, load_unit = unit_kN, load_case = ''Case A''\<rparr>]\<rparr>"

section \<open>Properties of the pages, whatever the imported functions do\<close>

subsection \<open>Sequencing of failures\<close>

lemma bind_err_Inl [simp]: "bind_err (Inl e) f = Inl e"
  by (simp add: bind_err_def)

lemma bind_err_Inr [simp]: "bind_err (Inr v) f = f v"
  by (simp add: bind_err_def)

lemma bind_err_eq_Inr: "bind_err r f = Inr y \<longleftrightarrow> (\<exists>v. r = Inr v \<and> f v = Inr y)"
  by (cases r) simp_all

lemma map_sum_bind_err: "map_sum id g (bind_err r f) = bind_err r (\<lambda>v. map_sum id g (f v))"
  by (cases r) simp_all

lemma py_div_nonzero [simp]: "b \<noteq> 0 \<Longrightarrow> py_div a b = Inr (a / b)"
  by (simp add: py_div_def)

lemma py_div_zero [simp]: "py_div a 0 = Inl ZeroDivisionError"
  by (simp add: py_div_def)

subsection \<open>The additional loads\<close>

lemma additional_loop_same:
  "list_all2 same_value_unit ls ls' \<Longrightarrow> additional_loop h L t ls = additional_loop h L t ls'"
proof (induction ls arbitrary: ls' t)
  case Nil
  then show ?case by simp
next
  case (Cons a as)
  then obtain b bs where ls': "ls' = b # bs" and ab: "same_value_unit a b"
    and rest: "list_all2 same_value_unit as bs"
    by (auto simp: list_all2_Cons1)
  have step: "additional_loop h L u as = additional_loop h L u bs" for u
    by (rule Cons.IH [OF rest])
  from ab have "load_value a = load_value b" "load_unit a = load_unit b"
    by (simp_all add: same_value_unit_def)
  then show ?case by (simp add: ls' step cong: if_cong)
qed

lemma list_all2_same_value_unit_refl: "list_all2 same_value_unit ls ls"
  by (simp add: list_all2_refl same_value_unit_def)

lemma additional_loop_zero_span:
  "convert_to_kn h (load_value l) (load_unit l) = Inr v
     \<Longrightarrow> \<not> str_in ''m'' (lower (load_unit l))
     \<Longrightarrow> additional_loop h 0 t (l # ls) = Inl ZeroDivisionError"
  by simp

subsection \<open>The floor-beam page\<close>

lemma floor_computed_run:
  "map_sum id floor_computed (floor_calculate_results h s) =
     bind_err (floor_dead_load s) (\<lambda>total_dead_load.
     bind_err (additional_loop h (fb_span s) 0 (fb_additional_loads s)) (\<lambda>add.
     bind_err (calculate_moment h (fb_span s)
                 (total_dead_load + fb_floor_cover_load s * beam_width
                   + fb_live_load s * beam_width + add) ''uniform'') (\<lambda>max_moment.
     bind_err (calculate_shear_force h (fb_span s)
                 (total_dead_load + fb_floor_cover_load s * beam_width
                   + fb_live_load s * beam_width + add) ''uniform'') (\<lambda>max_shear.
     bind_err (select_optimal_section h max_moment (fb_span s) ''uniform''
                 (fb_steel_grade s) (lower (fb_design_code s)) ''I-Beam'')
       (\<lambda>res. Inr (total_dead_load + fb_floor_cover_load s * beam_width
                   + fb_live_load s * beam_width + add, max_moment, max_shear, res))))))"
  by (simp add: floor_calculate_results_def map_sum_bind_err Let_def floor_computed_def)

lemma floor_dead_load_Inr:
  "floor_dead_load s = Inr d \<Longrightarrow>
     d = fb_dead_load s + (if 0 < fb_supported_beam_reaction s
                           then fb_supported_beam_reaction s / fb_span s else 0)"
  by (auto simp: floor_dead_load_def py_div_def split: if_splits)

lemma floor_dead_load_returns:
  "fb_span s \<noteq> 0 \<Longrightarrow> \<exists>d. floor_dead_load s = Inr d"
  by (simp add: floor_dead_load_def)

lemma floor_run_Inr:
  assumes "floor_calculate_results h s = Inr out"
  obtains d a where "floor_dead_load s = Inr d"
    and "additional_loop h (fb_span s) 0 (fb_additional_loads s) = Inr a"
    and "fb_total_load out = d + fb_floor_cover_load s * beam_width + fb_live_load s * beam_width + a"
    and "calculate_moment h (fb_span s) (fb_total_load out) ''uniform'' = Inr (fb_moment out)"
    and "calculate_shear_force h (fb_span s) (fb_total_load out) ''uniform'' = Inr (fb_shear out)"
    and "select_optimal_section h (fb_moment out) (fb_span s) ''uniform''
           (fb_steel_grade s) (lower (fb_design_code s)) ''I-Beam'' = Inr (fb_results out)"
    and "fb_inputs out = s"
  using assms
  by (auto simp: floor_calculate_results_def bind_err_eq_Inr Let_def)

lemma floor_run_echo_only:
  assumes "fb_span s' = fb_span s" "fb_dead_load s' = fb_dead_load s"
    "fb_floor_cover_load s' = fb_floor_cover_load s" "fb_live_load s' = fb_live_load s"
    "fb_steel_grade s' = fb_steel_grade s" "fb_design_code s' = fb_design_code s"
    "fb_supported_beam_reaction s' = fb_supported_beam_reaction s"
    "list_all2 same_value_unit (fb_additional_loads s') (fb_additional_loads s)"
  shows "map_sum id floor_computed (floor_calculate_results h s') =
         map_sum id floor_computed (floor_calculate_results h s)"
  using assms(1-7) additional_loop_same [OF assms(8)]
  by (simp add: floor_computed_run floor_dead_load_def)

lemma floor_ltb_of_computed:
  "map_sum id (\<lambda>out. ltb_check (fb_results out)) r =
   map_sum id (\<lambda>c. ltb_check (snd (snd (snd c)))) (map_sum id floor_computed r)"
  by (cases r) (simp_all add: floor_computed_def)

subsection \<open>The purlin page\<close>

lemma total_uniform_load_names:
  "total_uniform_load ld L ''Dead + Live'' = Inr (dead ld + live ld + additional ld)"
  "total_uniform_load ld L ''Dead + Live + Wind'' =
     Inr (dead ld + live ld + wind ld + additional ld)"
  "total_uniform_load ld L ''Dead + Live + Maintenance'' =
     (if L = 0 then Inl ZeroDivisionError
      else Inr (dead ld + live ld + maintenance ld / L + additional ld))"
  by (simp_all add: total_uniform_load_def Let_def py_div_def)

lemma total_uniform_load_additional:
  "total_uniform_load ld L c =
     bind_err (total_uniform_load (ld\<lparr>additional := 0\<rparr>) L c) (\<lambda>w. Inr (w + additional ld))"
  by (simp add: total_uniform_load_def Let_def py_div_def)

lemma purlin_computed_run:
  "map_sum id purlin_computed (purlin_calculate_results h s) =
     bind_err (calculate_wind_load h (purlin_span s) (purlin_wind_load s) purlin_spacing) (\<lambda>wl.
     bind_err (additional_loop h (purlin_span s) 0 (purlin_additional_loads s)) (\<lambda>add.
     bind_err (calculate_critical_moment h (purlin_loads h s wl add) (purlin_span s)) (\<lambda>mr.
     bind_err (purlin_shear h (purlin_loads h s wl add) (purlin_span s) (critical_case mr))
       (\<lambda>(max_shear, load_type).
     bind_err (select_optimal_section h (critical_moment mr) (purlin_span s) load_type
                 (purlin_steel_grade s) (lower (purlin_design_code s)) ''Channel'')
       (\<lambda>res. Inr (critical_moment mr, max_shear, critical_case mr, load_type, res))))))"
  by (simp add: purlin_calculate_results_def map_sum_bind_err Let_def purlin_computed_def
      split_def)

lemma purlin_run_Inr:
  assumes "purlin_calculate_results h p = Inr out"
  obtains wl a mr where
    "calculate_wind_load h (purlin_span p) (purlin_wind_load p) purlin_spacing = Inr wl"
    and "additional_loop h (purlin_span p) 0 (purlin_additional_loads p) = Inr a"
    and "calculate_critical_moment h (purlin_loads h p wl a) (purlin_span p) = Inr mr"
    and "pr_moment out = critical_moment mr"
    and "pr_critical_case out = critical_case mr"
    and "purlin_shear h (purlin_loads h p wl a) (purlin_span p) (critical_case mr)
           = Inr (pr_shear out, pr_load_type out)"
    and "select_optimal_section h (pr_moment out) (purlin_span p) (pr_load_type out)
           (purlin_steel_grade p) (lower (purlin_design_code p)) ''Channel'' = Inr (pr_results out)"
    and "pr_inputs out = p"
  using assms
  by (auto simp: purlin_calculate_results_def bind_err_eq_Inr Let_def split: prod.splits)

lemma purlin_run_echo_only:
  assumes "purlin_span s' = purlin_span s" "purlin_dead_load s' = purlin_dead_load s"
    "purlin_live_load s' = purlin_live_load s"
    "purlin_maintenance_load s' = purlin_maintenance_load s"
    "purlin_wind_load s' = purlin_wind_load s"
    "purlin_steel_grade s' = purlin_steel_grade s" "purlin_design_code s' = purlin_design_code s"
    "list_all2 same_value_unit (purlin_additional_loads s') (purlin_additional_loads s)"
  shows "map_sum id purlin_computed (purlin_calculate_results h s') =
         map_sum id purlin_computed (purlin_calculate_results h s)"
  using assms(1-7) additional_loop_same [OF assms(8)]
  by (simp add: purlin_computed_run purlin_loads_def)

lemma purlin_ltb_of_computed:
  "map_sum id (\<lambda>out. ltb_check (pr_results out)) r =
   map_sum id (\<lambda>c. ltb_check (snd (snd (snd (snd c))))) (map_sum id purlin_computed r)"
  by (cases r) (simp_all add: purlin_computed_def)

lemma purlin_shear_Inr:
  assumes "purlin_shear h ld L crit = Inr (v, t)"
  shows "if crit = ''Maintenance (point load)''
         then v = maintenance ld / 2 \<and> t = ''point_center''
         else (\<exists>w. total_uniform_load (ld\<lparr>additional := 0\<rparr>) L crit = Inr w
                 \<and> calculate_shear_force h L (w + additional ld) ''uniform'' = Inr v
                 \<and> t = ''uniform'')"
proof (cases "crit = ''Maintenance (point load)''")
  case True
  with assms show ?thesis by (simp add: purlin_shear_def)
next
  case False
  with assms obtain w' where w': "total_uniform_load ld L crit = Inr w'"
    and v: "calculate_shear_force h L w' ''uniform'' = Inr v" and t: "t = ''uniform''"
    by (auto simp: purlin_shear_def bind_err_eq_Inr)
  from w' obtain w where "total_uniform_load (ld\<lparr>additional := 0\<rparr>) L crit = Inr w"
    and "w' = w + additional ld"
    by (subst (asm) total_uniform_load_additional) (auto simp: bind_err_eq_Inr)
  with v t False show ?thesis by auto
qed

section \<open>Properties of the imported functions as the specification describes them\<close>

lemma spec_helpers_simps [simp]:
  "KG_TO_KN (spec_helpers cfg) = mass_to_force cfg"
  "convert_to_kn (spec_helpers cfg) = spec_convert_to_kn cfg"
  "calculate_moment (spec_helpers cfg) = spec_calculate_moment"
  "calculate_shear_force (spec_helpers cfg) = spec_calculate_shear_force"
  "calculate_wind_load (spec_helpers cfg) = spec_calculate_wind_load"
  "calculate_critical_moment (spec_helpers cfg) = spec_calculate_critical_moment"
  "select_optimal_section (spec_helpers cfg) = spec_select_optimal_section cfg"
  by (simp_all add: spec_helpers_def)

subsection \<open>Unit conversion\<close>

lemma spec_convert_to_kn_recognised:
  "recognised_unit u \<Longrightarrow> \<exists>v. spec_convert_to_kn cfg x u = Inr v"
  by (auto simp: recognised_unit_def spec_convert_to_kn_def)

lemma additional_loop_returns:
  "L \<noteq> 0 \<Longrightarrow> list_all (\<lambda>l. recognised_unit (load_unit l)) ls
     \<Longrightarrow> \<exists>a. additional_loop (spec_helpers cfg) L t ls = Inr a"
proof (induction ls arbitrary: t)
  case Nil
  show ?case by simp
next
  case (Cons l ls)
  from Cons.prems(2) have "recognised_unit (load_unit l)"
    and rest: "list_all (\<lambda>l. recognised_unit (load_unit l)) ls"
    by simp_all
  then obtain v where v: "spec_convert_to_kn cfg (load_value l) (load_unit l) = Inr v"
    using spec_convert_to_kn_recognised by blast
  have step: "\<exists>a. additional_loop (spec_helpers cfg) L u ls = Inr a" for u
    by (rule Cons.IH [OF Cons.prems(1) rest])
  show ?case
    using step [of "t + v"] step [of "t + v / L"] Cons.prems(1) by (simp add: v)
qed

subsection \<open>The section selector\<close>

lemma spec_select_optimal_section_returns:
  assumes "yield_stress cfg code grade = Some fy"
    and "load_type = ''uniform'' \<or> load_type = ''point_center''"
  shows "spec_select_optimal_section cfg moment L load_type grade code section_type =
     Inr (select_loop (check_section cfg fy moment L load_type code section_type)
            (fst (sections_for cfg code section_type)) (snd (sections_for cfg code section_type)))"
  using assms by (auto simp: spec_select_optimal_section_def split: prod.splits)

lemma spec_select_optimal_section_Inr:
  assumes "spec_select_optimal_section cfg moment L load_type grade code section_type = Inr r"
  obtains fy where "yield_stress cfg code grade = Some fy"
    and "r = select_loop (check_section cfg fy moment L load_type code section_type)
            (fst (sections_for cfg code section_type)) (snd (sections_for cfg code section_type))"
  using assms
  by (auto simp: spec_select_optimal_section_def split: if_splits option.splits prod.splits)

lemma spec_select_optimal_section_Inr_grade:
  "spec_select_optimal_section cfg moment L load_type grade code section_type = Inr r
     \<Longrightarrow> \<exists>fy. yield_stress cfg code grade = Some fy
           \<and> (load_type = ''uniform'' \<or> load_type = ''point_center'')"
  by (auto simp: spec_select_optimal_section_def split: if_splits option.splits)

lemma check_section_fields:
  "section_properties (check_section cfg fy moment L load_type code section_type sec) = sec"
  "capacity_check (check_section cfg fy moment L load_type code section_type sec)
     = bending_check sec fy moment"
  "deflection_check (check_section cfg fy moment L load_type code section_type sec)
     = check_deflection section_type L
         (deflection (check_section cfg fy moment L load_type code section_type sec))"
  "catalog_exhausted (check_section cfg fy moment L load_type code section_type sec) = False"
  by (simp_all add: check_section_def Let_def)

lemma check_section_verdict:
  "(overall_status (check_section cfg fy moment L load_type code section_type sec) = Safe)
     = reports_all_safe (check_section cfg fy moment L load_type code section_type sec)"
  by (simp add: check_section_def Let_def reports_all_safe_def all_checks_safe_def
      compactness_safe_def ltb_counts_safe_def safe_if_def)

lemma select_loop_invariant:
  assumes chk: "\<And>x. P (chk x)"
    and upd: "\<And>r. P r \<Longrightarrow> overall_status r \<noteq> Safe
                \<Longrightarrow> P (r\<lparr>overall_status := Unsafe, catalog_exhausted := True\<rparr>)"
  shows "P (select_loop chk c cs)"
proof (induction cs arbitrary: c)
  case Nil
  show ?case using chk [of c] upd [of "chk c"] by (simp add: Let_def)
next
  case (Cons d ds)
  show ?case using chk [of c] Cons.IH [of d] by (simp add: Let_def)
qed

lemma select_loop_verdict:
  "(overall_status
      (select_loop (check_section cfg fy moment L load_type code section_type) c cs) = Safe)
   = reports_all_safe
      (select_loop (check_section cfg fy moment L load_type code section_type) c cs)"
proof (rule select_loop_invariant)
  fix x
  show "(overall_status (check_section cfg fy moment L load_type code section_type x) = Safe)
     = reports_all_safe (check_section cfg fy moment L load_type code section_type x)"
    by (rule check_section_verdict)
next
  fix r :: results
  assume "(overall_status r = Safe) = reports_all_safe r" "overall_status r \<noteq> Safe"
  then show "(overall_status (r\<lparr>overall_status := Unsafe, catalog_exhausted := True\<rparr>) = Safe)
     = reports_all_safe (r\<lparr>overall_status := Unsafe, catalog_exhausted := True\<rparr>)"
    by (simp add: reports_all_safe_def)
qed

lemma select_loop_deflection:
  "deflection_check
      (select_loop (check_section cfg fy moment L load_type code section_type) c cs)
   = check_deflection section_type L
      (deflection
        (select_loop (check_section cfg fy moment L load_type code section_type) c cs))"
proof (rule select_loop_invariant)
  fix x
  show "deflection_check (check_section cfg fy moment L load_type code section_type x)
     = check_deflection section_type L
         (deflection (check_section cfg fy moment L load_type code section_type x))"
    by (rule check_section_fields)
next
  fix r :: results
  assume "deflection_check r = check_deflection section_type L (deflection r)"
  then show "deflection_check (r\<lparr>overall_status := Unsafe, catalog_exhausted := True\<rparr>)
     = check_deflection section_type L
         (deflection (r\<lparr>overall_status := Unsafe, catalog_exhausted := True\<rparr>))"
    by simp
qed

lemma select_loop_exhausted:
  "(\<forall>x \<in> set (c # cs). overall_status (chk x) \<noteq> Safe) \<Longrightarrow>
     select_loop chk c cs
       = (chk (last (c # cs)))\<lparr>overall_status := Unsafe, catalog_exhausted := True\<rparr>"
  by (induction cs arbitrary: c) (simp_all add: Let_def)

lemma spec_select_optimal_section_verdict:
  assumes "spec_select_optimal_section cfg moment L load_type grade code section_type = Inr r"
  shows "(overall_status r = Safe) = reports_all_safe r"
  using assms by (elim spec_select_optimal_section_Inr) (simp add: select_loop_verdict)

lemma spec_select_optimal_section_deflection:
  assumes "spec_select_optimal_section cfg moment L load_type grade code section_type = Inr r"
  shows "deflection_check r = check_deflection section_type L (deflection r)"
  using assms by (elim spec_select_optimal_section_Inr) (simp add: select_loop_deflection)

lemma over_capacity_unsafe:
  assumes "0 < Zx sec * fy" "Zx sec * fy < moment"
  shows "overall_status (check_section cfg fy moment L load_type code section_type sec) \<noteq> Safe"
proof -
  from assms have "1 < moment / (Zx sec * fy)"
    by (simp add: field_simps)
  then have "cap_status (bending_check sec fy moment) = Unsafe"
    by (simp add: bending_check_def Let_def safe_if_def)
  then show ?thesis
    by (simp add: check_section_verdict reports_all_safe_def check_section_fields)
qed

subsection \<open>The load combiner\<close>

lemma pick_critical_cases:
  "pick_critical L best cs = Inr r \<Longrightarrow>
     r = best \<or> (\<exists>c. c \<in> set cs \<and> combination_moment L c = Inr r)"
proof (induction cs arbitrary: best)
  case Nil
  then show ?case by simp
next
  case (Cons c cs)
  from Cons.prems obtain x where x: "combination_moment L c = Inr x"
    and rest: "pick_critical L (if critical_moment x > critical_moment best then x else best) cs = Inr r"
    by (auto simp: bind_err_eq_Inr)
  from Cons.IH [OF rest]
  consider "r = x" | "r = best" | "\<exists>c'. c' \<in> set cs \<and> combination_moment L c' = Inr r"
    by (auto split: if_splits)
  then show ?case
  proof cases
    case 1
    with x have "c \<in> set (c # cs) \<and> combination_moment L c = Inr r" by simp
    then show ?thesis by blast
  next
    case 2
    then show ?thesis by simp
  next
    case 3
    then obtain c' where "c' \<in> set (c # cs) \<and> combination_moment L c' = Inr r" by auto
    then show ?thesis by blast
  qed
qed

lemma combination_moment_uniform:
  "combination_moment L (nm, w, ''uniform'') =
     Inr \<lparr>critical_moment = w * L\<^sup>2 / 8, critical_case = nm, governing_pattern = ''uniform''\<rparr>"
  by (simp add: combination_moment_def spec_calculate_moment_def)

lemma combination_moment_point:
  "combination_moment L (nm, w, ''point_center'') =
     Inr \<lparr>critical_moment = w * L / 4, critical_case = nm, governing_pattern = ''point_center''\<rparr>"
  by (simp add: combination_moment_def spec_calculate_moment_def)

lemma spec_calculate_critical_moment_cases:
  assumes "spec_calculate_critical_moment ld L = Inr mr"
  shows "(critical_case mr = ''Dead + Live'' \<and> governing_pattern mr = ''uniform''
            \<and> critical_moment mr = (dead ld + live ld + additional ld) * L\<^sup>2 / 8)
       \<or> (critical_case mr = ''Dead + Live + Wind'' \<and> governing_pattern mr = ''uniform''
            \<and> critical_moment mr = (dead ld + live ld + wind ld + additional ld) * L\<^sup>2 / 8)
       \<or> (critical_case mr = ''Maintenance (point load)'' \<and> governing_pattern mr = ''point_center''
            \<and> critical_moment mr = maintenance ld * L / 4)
       \<or> (critical_case mr = ''Dead + Live + Maintenance'' \<and> governing_pattern mr = ''uniform''
            \<and> critical_moment mr
                = (dead ld + live ld + maintenance ld / L + additional ld) * L\<^sup>2 / 8)"
proof -
  let ?c1 = "\<lparr>critical_moment = (dead ld + live ld + additional ld) * L\<^sup>2 / 8,
              critical_case = ''Dead + Live'', governing_pattern = ''uniform''\<rparr>"
  from assms have pick: "pick_critical L ?c1 (later_combinations ld L) = Inr mr"
    by (simp add: spec_calculate_critical_moment_def first_combination_def combination_moment_uniform)
  from pick_critical_cases [OF pick]
  consider "mr = ?c1"
    | "combination_moment L
         (''Dead + Live + Wind'', dead ld + live ld + wind ld + additional ld, ''uniform'') = Inr mr"
    | "combination_moment L (''Maintenance (point load)'', maintenance ld, ''point_center'') = Inr mr"
    | "combination_moment L
         (''Dead + Live + Maintenance'',
          dead ld + live ld + maintenance ld / L + additional ld, ''uniform'') = Inr mr"
    by (auto simp: later_combinations_def)
  then show ?thesis
  proof cases
    case 1
    then show ?thesis by simp
  next
    case 2
    then have "mr = \<lparr>critical_moment = (dead ld + live ld + wind ld + additional ld) * L\<^sup>2 / 8,
              critical_case = ''Dead + Live + Wind'', governing_pattern = ''uniform''\<rparr>"
      by (simp add: combination_moment_uniform)
    then show ?thesis by simp
  next
    case 3
    then have "mr = \<lparr>critical_moment = maintenance ld * L / 4,
              critical_case = ''Maintenance (point load)'', governing_pattern = ''point_center''\<rparr>"
      by (simp add: combination_moment_point)
    then show ?thesis by simp
  next
    case 4
    then have "mr = \<lparr>critical_moment
                = (dead ld + live ld + maintenance ld / L + additional ld) * L\<^sup>2 / 8,
              critical_case = ''Dead + Live + Maintenance'', governing_pattern = ''uniform''\<rparr>"
      by (simp add: combination_moment_uniform)
    then show ?thesis by simp
  qed
qed

lemma pick_critical_returns:
  "list_all (\<lambda>c. snd (snd c) = ''uniform'' \<or> snd (snd c) = ''point_center'') cs
     \<Longrightarrow> \<exists>r. pick_critical L best cs = Inr r"
proof (induction cs arbitrary: best)
  case Nil
  show ?case by simp
next
  case (Cons c cs)
  obtain nm w pat where c: "c = (nm, w, pat)" by (cases c) auto
  from Cons.prems have pat: "pat = ''uniform'' \<or> pat = ''point_center''"
    and rest: "list_all (\<lambda>c. snd (snd c) = ''uniform'' \<or> snd (snd c) = ''point_center'') cs"
    by (simp_all add: c)
  from pat obtain x where x: "combination_moment L c = Inr x"
    using combination_moment_uniform combination_moment_point c by blast
  show ?case
    using Cons.IH [OF rest] by (simp add: x)
qed

lemma spec_calculate_critical_moment_returns: "\<exists>mr. spec_calculate_critical_moment ld L = Inr mr"
proof -
  have "list_all (\<lambda>c. snd (snd c) = ''uniform'' \<or> snd (snd c) = ''point_center'')
          (later_combinations ld L)"
    by (simp add: later_combinations_def)
  from pick_critical_returns [OF this] show ?thesis
    by (simp add: spec_calculate_critical_moment_def first_combination_def combination_moment_uniform)
qed

subsection \<open>The pages with these functions\<close>

lemma floor_calculate_results_returns:
  assumes "fb_span s \<noteq> 0"
    and "list_all (\<lambda>l. recognised_unit (load_unit l)) (fb_additional_loads s)"
    and "yield_stress cfg (lower (fb_design_code s)) (fb_steel_grade s) \<noteq> None"
  shows "\<exists>out. floor_calculate_results (spec_helpers cfg) s = Inr out"
proof -
  from assms(1) obtain d where d: "floor_dead_load s = Inr d"
    using floor_dead_load_returns by blast
  from assms(1,2) obtain a where
    a: "additional_loop (spec_helpers cfg) (fb_span s) 0 (fb_additional_loads s) = Inr a"
    using additional_loop_returns by blast
  from assms(3) obtain fy where
    fy: "yield_stress cfg (lower (fb_design_code s)) (fb_steel_grade s) = Some fy"
    by auto
  show ?thesis
    by (simp add: floor_calculate_results_def d a Let_def spec_calculate_moment_def
        spec_calculate_shear_force_def spec_select_optimal_section_returns [OF fy])
qed

lemma spec_purlin_shear_names:
  "purlin_shear (spec_helpers cfg) ld L ''Maintenance (point load)''
     = Inr (maintenance ld / 2, ''point_center'')"
  "purlin_shear (spec_helpers cfg) ld L ''Dead + Live'' =
     Inr ((dead ld + live ld + additional ld) * L / 2, ''uniform'')"
  "purlin_shear (spec_helpers cfg) ld L ''Dead + Live + Wind'' =
     Inr ((dead ld + live ld + wind ld + additional ld) * L / 2, ''uniform'')"
  "purlin_shear (spec_helpers cfg) ld L ''Dead + Live + Maintenance'' =
     (if L = 0 then Inl ZeroDivisionError
      else Inr ((dead ld + live ld + maintenance ld / L + additional ld) * L / 2, ''uniform''))"
  by (simp_all add: purlin_shear_def total_uniform_load_names spec_calculate_shear_force_def)

section \<open>Running the concrete inputs\<close>

lemma sqrt_900: "sqrt 900 = 30"
  by (rule real_sqrt_unique) simp_all

lemma lower_egyptian: "lower ''Egyptian Code'' = ''egyptian code''"
  by (simp add: lower_def lower_char_def)

lemma unit_kN_facts:
  "recognised_unit unit_kN" "\<not> str_in ''m'' (lower unit_kN)"
  "spec_convert_to_kn cfg v unit_kN = Inr v"
  by (simp_all add: recognised_unit_def spec_convert_to_kn_def unit_kN_def lower_def lower_char_def)

lemma unit_kN_m_facts:
  "recognised_unit unit_kN_m" "str_in ''m'' (lower unit_kN_m)"
  "spec_convert_to_kn cfg v unit_kN_m = Inr v"
  by (simp_all add: recognised_unit_def spec_convert_to_kn_def unit_kN_m_def lower_def lower_char_def)


lemma unit_kg_facts:
  "recognised_unit unit_kg" "\<not> str_in ''m'' (lower unit_kg)"
  "spec_convert_to_kn cfg v unit_kg = Inr (v * mass_to_force cfg)"
  by (simp_all add: recognised_unit_def spec_convert_to_kn_def unit_kg_def lower_def lower_char_def)

lemma cfg_ex_simps:
  "mass_to_force cfg_ex = 981 / 100000"
  "E_modulus cfg_ex = 216000"
  "yield_stress cfg_ex code ''St37'' = Some 240"
  "sections_for cfg_ex code section_type = (sec_small, [sec_large])"
  "flange_coefficient cfg_ex code = 38 / 100"
  "web_coefficient cfg_ex code = 376 / 100"
  "buckling_moment cfg_ex sec L fy = Some (2 * Zx sec * fy)"
  "buckling_factor cfg_ex code = 9 / 10"
  "candidate_deflection cfg_ex sec moment L load_type = moment / (10000 * Ix sec)"
  by (simp_all add: cfg_ex_def)

lemma compactness_small:
  "flange_status (compactness cfg_ex code sec_small 240) = Safe"
  "web_status (compactness cfg_ex code sec_small 240) = Safe"
  by (simp_all add: compactness_def cfg_ex_simps sec_small_def sqrt_900 safe_if_def)

lemma compactness_large:
  "flange_status (compactness cfg_ex code sec_large 240) = Safe"
  "web_status (compactness cfg_ex code sec_large 240) = Safe"
  by (simp_all add: compactness_def cfg_ex_simps sec_large_def sqrt_900 safe_if_def)

lemma check_small_25:
  "overall_status (check_section cfg_ex 240 25 5 load_type code section_type sec_small) = Unsafe"
  by (simp add: check_section_def Let_def all_checks_safe_def bending_check_def sec_small_def
      safe_if_def)

lemma bending_large_25: "cap_status (bending_check sec_large 240 25) = Safe"
  by (simp add: bending_check_def sec_large_def safe_if_def)

lemma buckling_large_25: "ltb_status (buckling_check cfg_ex code sec_large 240 25 5) = Safe"
  by (simp add: buckling_check_def cfg_ex_simps sec_large_def safe_if_def)

lemma deflection_large_25:
  "defl_status (check_deflection ''I-Beam'' 5
     (candidate_deflection cfg_ex sec_large 25 5 load_type)) = Safe"
  by (simp add: check_deflection_def deflection_check_with_def deflection_limit_def
      cfg_ex_simps sec_large_def safe_if_def)

lemma check_large_25:
  "overall_status (check_section cfg_ex 240 25 5 load_type code ''I-Beam'' sec_large) = Safe"
  by (simp add: check_section_def Let_def all_checks_safe_def bending_large_25
      compactness_safe_def compactness_large ltb_counts_safe_def buckling_large_25
      deflection_large_25 safe_if_def)

lemma select_ex_25:
  "spec_select_optimal_section cfg_ex 25 5 ''uniform'' ''St37'' ''egyptian code'' ''I-Beam'' =
     Inr (check_section cfg_ex 240 25 5 ''uniform'' ''egyptian code'' ''I-Beam'' sec_large)"
  by (simp add: spec_select_optimal_section_def cfg_ex_simps check_small_25 check_large_25)

lemma fb_ex_simps:
  "fb_span fb_ex = 5" "fb_dead_load fb_ex = 1" "fb_floor_cover_load fb_ex = 3 / 2"
  "fb_live_load fb_ex = 5 / 2" "fb_steel_grade fb_ex = ''St37''"
  "fb_design_code fb_ex = ''Egyptian Code''" "fb_supported_beam_reaction fb_ex = 5"
  "fb_additional_loads fb_ex = [\<lparr>load_value = 10, load_unit = unit_kN, load_case = ''Case A''\<rparr>]"
  by (simp_all add: fb_ex_def)

lemma fb_ex_additional: "additional_loop (spec_helpers cfg) 5 0 (fb_additional_loads fb_ex) = Inr 2"
  by (simp add: fb_ex_simps unit_kN_facts)

lemma fb_ex_run:
  "floor_calculate_results h_ex fb_ex =
     Inr \<lparr>fb_inputs = fb_ex, fb_total_load = 8, fb_moment = 25, fb_shear = 20,
          fb_results = check_section cfg_ex 240 25 5 ''uniform'' ''egyptian code'' ''I-Beam''
            sec_large\<rparr>"
  by (simp add: floor_calculate_results_def h_ex_def floor_dead_load_def fb_ex_additional [simplified fb_ex_simps]
      fb_ex_simps beam_width_def spec_calculate_moment_def spec_calculate_shear_force_def lower_egyptian
      select_ex_25 unit_kN_facts)

lemma fb_zero_span_simps:
  "fb_span fb_zero_span = 0" "fb_supported_beam_reaction fb_zero_span = 5"
  by (simp_all add: fb_zero_span_def fb_ex_def)

lemma floor_negative_span_returns:
  "\<exists>out. floor_calculate_results h_ex (fb_ex\<lparr>fb_span := - 5\<rparr>) = Inr out"
  unfolding h_ex_def
  by (rule floor_calculate_results_returns)
     (simp_all add: fb_ex_simps unit_kN_facts cfg_ex_simps)

lemma bending_small_le_24:
  "0 \<le> M \<Longrightarrow> M \<le> 24 \<Longrightarrow> cap_status (bending_check sec_small 240 M) = Safe"
  by (simp add: bending_check_def sec_small_def safe_if_def)

lemma buckling_small_le_24:
  "0 \<le> M \<Longrightarrow> M \<le> 24 \<Longrightarrow> ltb_status (buckling_check cfg_ex code sec_small 240 M L) = Safe"
  by (simp add: buckling_check_def cfg_ex_simps sec_small_def safe_if_def)

lemma deflection_small_channel_le_24:
  "0 \<le> M \<Longrightarrow> M \<le> 24 \<Longrightarrow>
     defl_status (check_deflection ''Channel'' 6
       (candidate_deflection cfg_ex sec_small M 6 load_type)) = Safe"
  by (simp add: check_deflection_def deflection_check_with_def deflection_limit_def
      cfg_ex_simps sec_small_def safe_if_def)

lemma check_small_channel_le_24:
  "0 \<le> M \<Longrightarrow> M \<le> 24 \<Longrightarrow>
     overall_status (check_section cfg_ex 240 M 6 load_type code ''Channel'' sec_small) = Safe"
  by (simp add: check_section_def Let_def all_checks_safe_def bending_small_le_24
      compactness_safe_def compactness_small ltb_counts_safe_def buckling_small_le_24
      deflection_small_channel_le_24 safe_if_def)

lemma select_channel_le_24:
  assumes "0 \<le> M" "M \<le> 24" "load_type = ''uniform'' \<or> load_type = ''point_center''"
  shows "spec_select_optimal_section cfg_ex M 6 load_type ''St37'' code ''Channel'' =
     Inr (check_section cfg_ex 240 M 6 load_type code ''Channel'' sec_small)"
  using assms(3)
  by (auto simp: spec_select_optimal_section_def cfg_ex_simps check_small_channel_le_24 [OF assms(1,2)])

lemma pr_ex_simps:
  "purlin_span pr_ex = 6" "purlin_dead_load pr_ex = 1 / 2" "purlin_live_load pr_ex = 1"
  "purlin_maintenance_load pr_ex = 100" "purlin_wind_load pr_ex = 7 / 10"
  "purlin_steel_grade pr_ex = ''St37''" "purlin_design_code pr_ex = ''Egyptian Code''"
  "purlin_additional_loads pr_ex =
     [\<lparr>load_value = 1 / 10, load_unit = unit_kN_m, load_case = ''Case A''\<rparr>]"
  by (simp_all add: pr_ex_def)

lemma pr_ex_critical:
  "spec_calculate_critical_moment
     \<lparr>dead = 1 / 2, live = 1, wind = 21 / 20, maintenance = 981 / 1000, additional = 1 / 10\<rparr> 6
   = Inr \<lparr>critical_moment = 477 / 40, critical_case = ''Dead + Live + Wind'',
          governing_pattern = ''uniform''\<rparr>"
  by (simp add: spec_calculate_critical_moment_def first_combination_def later_combinations_def
      combination_moment_uniform combination_moment_point)

lemma pr_ex_run:
  "purlin_calculate_results h_ex pr_ex =
     Inr \<lparr>pr_inputs = pr_ex, pr_moment = 477 / 40, pr_shear = 159 / 20,
          pr_critical_case = ''Dead + Live + Wind'', pr_load_type = ''uniform'',
          pr_results = check_section cfg_ex 240 (477 / 40) 6 ''uniform'' ''egyptian code''
            ''Channel'' sec_small\<rparr>"
  by (simp add: purlin_calculate_results_def h_ex_def Let_def unit_kN_m_facts purlin_loads_def
      spec_calculate_wind_load_def purlin_spacing_def cfg_ex_simps pr_ex_critical spec_purlin_shear_names
      pr_ex_simps lower_egyptian select_channel_le_24)

lemma pr_maintenance_simps:
  "purlin_span pr_maintenance = 6" "purlin_dead_load pr_maintenance = 0"
  "purlin_live_load pr_maintenance = 0"
  "purlin_maintenance_load pr_maintenance = 100" "purlin_wind_load pr_maintenance = 0"
  "purlin_steel_grade pr_maintenance = ''St37''"
  "purlin_design_code pr_maintenance = ''Egyptian Code''"
  "purlin_additional_loads pr_maintenance =
     [\<lparr>load_value = 1 / 10, load_unit = unit_kN_m, load_case = ''Case A''\<rparr>]"
  by (simp_all add: pr_maintenance_def pr_ex_def)

lemma maintenance_critical:
  "a = 0 \<or> a = 1 / 10 \<Longrightarrow>
   spec_calculate_critical_moment
     \<lparr>dead = 0, live = 0, wind = 0, maintenance = 981 / 1000, additional = a\<rparr> 6
   = Inr \<lparr>critical_moment = 2943 / 2000, critical_case = ''Maintenance (point load)'',
          governing_pattern = ''point_center''\<rparr>"
  by (auto simp: spec_calculate_critical_moment_def first_combination_def later_combinations_def
      combination_moment_uniform combination_moment_point)

lemma pr_maintenance_computed:
  "ls = [] \<or> ls = [\<lparr>load_value = 1 / 10, load_unit = unit_kN_m, load_case = ''Case A''\<rparr>] \<Longrightarrow>
   map_sum id purlin_computed
     (purlin_calculate_results h_ex (pr_maintenance\<lparr>purlin_additional_loads := ls\<rparr>)) =
     Inr (2943 / 2000, 981 / 2000, ''Maintenance (point load)'', ''point_center'',
          check_section cfg_ex 240 (2943 / 2000) 6 ''point_center'' ''egyptian code''
            ''Channel'' sec_small)"
  by (auto simp: purlin_computed_run h_ex_def pr_maintenance_simps unit_kN_m_facts purlin_loads_def
      spec_calculate_wind_load_def cfg_ex_simps maintenance_critical spec_purlin_shear_names
      lower_egyptian select_channel_le_24)




lemma pr_zero_span_simps:
  "purlin_span pr_zero_span = 0"
  "purlin_additional_loads pr_zero_span =
     [\<lparr>load_value = 10, load_unit = unit_kN, load_case = ''Case A''\<rparr>]"
  by (simp_all add: pr_zero_span_def pr_ex_def)

section \<open>The claims\<close>

subsection \<open>C1: the closed forms of the beam analysis\<close>

text \<open>
  Claim C1. For every span and load, the beam analysis returns the moment \<open>w L\<^sup>2 / 8\<close>
  and the shear \<open>w L / 2\<close> for a uniform load \<open>w\<close>, and the moment \<open>P L / 4\<close> and the
  shear \<open>P / 2\<close> for a point load \<open>P\<close> at midspan; the purlin page itself takes half of
  the maintenance load as the shear of its point-load case.
\<close>

theorem beam_analysis_closed_forms:
  "spec_calculate_moment L w ''uniform'' = Inr (w * L\<^sup>2 / 8)
   \<and> spec_calculate_shear_force L w ''uniform'' = Inr (w * L / 2)
   \<and> spec_calculate_moment L P ''point_center'' = Inr (P * L / 4)
   \<and> spec_calculate_shear_force L P ''point_center'' = Inr (P / 2)
   \<and> purlin_shear h ld L ''Maintenance (point load)'' = Inr (maintenance ld / 2, ''point_center'')"
  by (simp add: spec_calculate_moment_def spec_calculate_shear_force_def purlin_shear_def)

text \<open>
  The two examples of the specification: a span of 5 m under 4 kN/m, and a point load of
  8 kN on a span of 4 m.
\<close>

theorem beam_analysis_closed_forms_witness:
  "spec_calculate_moment 5 4 ''uniform'' = Inr (25 / 2)
   \<and> spec_calculate_shear_force 5 4 ''uniform'' = Inr 10
   \<and> spec_calculate_moment 4 8 ''point_center'' = Inr 8
   \<and> spec_calculate_shear_force 4 8 ''point_center'' = Inr 4"
  using beam_analysis_closed_forms [where L = 5 and w = 4]
    beam_analysis_closed_forms [where L = 4 and P = 8]
  by simp

subsection \<open>C2: per-area loads and the fixed width\<close>




subsection \<open>C3: the additional loads in the critical case\<close>

text \<open>
  Claim C3, as amended. Whatever the imported functions do, whenever the purlin page
  returns, the additional loads were converted and their total was handed to the load
  combiner as the entry \<^verbatim>\<open>additional\<close>; if the critical case is not the maintenance point
  load, the reported shear is the beam analysis of the uniform load made of the loads the
  case names plus that total, and if it is the maintenance point load, the reported shear
  is half of the maintenance load alone. With the load combiner and the beam analysis as
  the specification describes them, the reported moment and shear are those of the uniform
  load named by the case plus the additional loads in the three uniform cases, and those
  of the isolated point load, \<open>P L / 4\<close> and \<open>P / 2\<close>, in the maintenance point-load case.
\<close>

theorem additional_loads_in_uniform_cases:
  "(\<forall>out. purlin_calculate_results h p = Inr out \<longrightarrow>
      (\<exists>wl a mr.
          calculate_wind_load h (purlin_span p) (purlin_wind_load p) purlin_spacing = Inr wl
        \<and> additional_loop h (purlin_span p) 0 (purlin_additional_loads p) = Inr a
        \<and> additional (purlin_loads h p wl a) = a
        \<and> calculate_critical_moment h (purlin_loads h p wl a) (purlin_span p) = Inr mr
        \<and> pr_moment out = critical_moment mr
        \<and> pr_critical_case out = critical_case mr
        \<and> (if pr_critical_case out = ''Maintenance (point load)''
           then pr_shear out = purlin_maintenance_load p * KG_TO_KN h / 2
                \<and> pr_load_type out = ''point_center''
           else (\<exists>w. total_uniform_load (purlin_loads h p wl 0) (purlin_span p)
                        (pr_critical_case out) = Inr w
                   \<and> calculate_shear_force h (purlin_span p) (w + a) ''uniform''
                        = Inr (pr_shear out)
                   \<and> pr_load_type out = ''uniform''))))
   \<and> (\<forall>out. purlin_calculate_results (spec_helpers cfg) q = Inr out \<longrightarrow>
      (\<exists>a. additional_loop (spec_helpers cfg) (purlin_span q) 0 (purlin_additional_loads q)
              = Inr a \<and>
         (if pr_critical_case out = ''Maintenance (point load)''
          then pr_moment out = purlin_maintenance_load q * mass_to_force cfg * purlin_span q / 4
               \<and> pr_shear out = purlin_maintenance_load q * mass_to_force cfg / 2
               \<and> pr_load_type out = ''point_center''
          else (\<exists>w. ((pr_critical_case out = ''Dead + Live''
                        \<and> w = purlin_dead_load q + purlin_live_load q)
                     \<or> (pr_critical_case out = ''Dead + Live + Wind''
                        \<and> w = purlin_dead_load q + purlin_live_load q
                              + purlin_wind_load q * purlin_spacing)
                     \<or> (pr_critical_case out = ''Dead + Live + Maintenance''
                        \<and> w = purlin_dead_load q + purlin_live_load q
                              + purlin_maintenance_load q * mass_to_force cfg / purlin_span q))
                  \<and> pr_moment out = (w + a) * (purlin_span q)\<^sup>2 / 8
                  \<and> pr_shear out = (w + a) * purlin_span q / 2
                  \<and> pr_load_type out = ''uniform''))))"
proof (intro conjI allI impI)
  fix out
  assume "purlin_calculate_results h p = Inr out"
  then obtain wl a mr where
    wl: "calculate_wind_load h (purlin_span p) (purlin_wind_load p) purlin_spacing = Inr wl"
    and a: "additional_loop h (purlin_span p) 0 (purlin_additional_loads p) = Inr a"
    and mr: "calculate_critical_moment h (purlin_loads h p wl a) (purlin_span p) = Inr mr"
    and m: "pr_moment out = critical_moment mr"
    and c: "pr_critical_case out = critical_case mr"
    and sh: "purlin_shear h (purlin_loads h p wl a) (purlin_span p) (critical_case mr)
           = Inr (pr_shear out, pr_load_type out)"
    by (rule purlin_run_Inr)
  have ld: "additional (purlin_loads h p wl a) = a"
    "maintenance (purlin_loads h p wl a) = purlin_maintenance_load p * KG_TO_KN h"
    "(purlin_loads h p wl a)\<lparr>additional := 0\<rparr> = purlin_loads h p wl 0"
    by (simp_all add: purlin_loads_def)
  from purlin_shear_Inr [OF sh]
  have "if pr_critical_case out = ''Maintenance (point load)''
           then pr_shear out = purlin_maintenance_load p * KG_TO_KN h / 2
                \<and> pr_load_type out = ''point_center''
           else (\<exists>w. total_uniform_load (purlin_loads h p wl 0) (purlin_span p)
                        (pr_critical_case out) = Inr w
                   \<and> calculate_shear_force h (purlin_span p) (w + a) ''uniform''
                        = Inr (pr_shear out)
                   \<and> pr_load_type out = ''uniform'')"
    by (simp add: ld c split: if_splits)
  with wl a mr m c ld(1)
  show "\<exists>wl a mr.
          calculate_wind_load h (purlin_span p) (purlin_wind_load p) purlin_spacing = Inr wl
        \<and> additional_loop h (purlin_span p) 0 (purlin_additional_loads p) = Inr a
        \<and> additional (purlin_loads h p wl a) = a
        \<and> calculate_critical_moment h (purlin_loads h p wl a) (purlin_span p) = Inr mr
        \<and> pr_moment out = critical_moment mr
        \<and> pr_critical_case out = critical_case mr
        \<and> (if pr_critical_case out = ''Maintenance (point load)''
           then pr_shear out = purlin_maintenance_load p * KG_TO_KN h / 2
                \<and> pr_load_type out = ''point_center''
           else (\<exists>w. total_uniform_load (purlin_loads h p wl 0) (purlin_span p)
                        (pr_critical_case out) = Inr w
                   \<and> calculate_shear_force h (purlin_span p) (w + a) ''uniform''
                        = Inr (pr_shear out)
                   \<and> pr_load_type out = ''uniform''))"
    by blast
next
  fix out
  assume "purlin_calculate_results (spec_helpers cfg) q = Inr out"
  then obtain wl a mr where
    wl: "calculate_wind_load (spec_helpers cfg) (purlin_span q) (purlin_wind_load q)
           purlin_spacing = Inr wl"
    and a: "additional_loop (spec_helpers cfg) (purlin_span q) 0 (purlin_additional_loads q)
           = Inr a"
    and mr: "calculate_critical_moment (spec_helpers cfg) (purlin_loads (spec_helpers cfg) q wl a)
           (purlin_span q) = Inr mr"
    and m: "pr_moment out = critical_moment mr"
    and c: "pr_critical_case out = critical_case mr"
    and sh: "purlin_shear (spec_helpers cfg) (purlin_loads (spec_helpers cfg) q wl a)
           (purlin_span q) (critical_case mr) = Inr (pr_shear out, pr_load_type out)"
    by (rule purlin_run_Inr)
  let ?ld = "purlin_loads (spec_helpers cfg) q wl a"
  from wl have wl_eq: "wl = purlin_wind_load q * purlin_spacing"
    by (simp add: spec_calculate_wind_load_def)
  have ld: "dead ?ld = purlin_dead_load q" "live ?ld = purlin_live_load q"
    "wind ?ld = purlin_wind_load q * purlin_spacing"
    "maintenance ?ld = purlin_maintenance_load q * mass_to_force cfg" "additional ?ld = a"
    by (simp_all add: purlin_loads_def wl_eq)
  from mr have "spec_calculate_critical_moment ?ld (purlin_span q) = Inr mr"
    by simp
  from spec_calculate_critical_moment_cases [OF this]
  consider (dl) "critical_case mr = ''Dead + Live''"
      "critical_moment mr = (dead ?ld + live ?ld + additional ?ld) * (purlin_span q)\<^sup>2 / 8"
    | (dlw) "critical_case mr = ''Dead + Live + Wind''"
      "critical_moment mr = (dead ?ld + live ?ld + wind ?ld + additional ?ld) * (purlin_span q)\<^sup>2 / 8"
    | (mp) "critical_case mr = ''Maintenance (point load)''"
      "critical_moment mr = maintenance ?ld * purlin_span q / 4"
    | (dlm) "critical_case mr = ''Dead + Live + Maintenance''"
      "critical_moment mr
         = (dead ?ld + live ?ld + maintenance ?ld / purlin_span q + additional ?ld)
           * (purlin_span q)\<^sup>2 / 8"
    by blast
  then have "if pr_critical_case out = ''Maintenance (point load)''
          then pr_moment out = purlin_maintenance_load q * mass_to_force cfg * purlin_span q / 4
               \<and> pr_shear out = purlin_maintenance_load q * mass_to_force cfg / 2
               \<and> pr_load_type out = ''point_center''
          else (\<exists>w. ((pr_critical_case out = ''Dead + Live''
                        \<and> w = purlin_dead_load q + purlin_live_load q)
                     \<or> (pr_critical_case out = ''Dead + Live + Wind''
                        \<and> w = purlin_dead_load q + purlin_live_load q
                              + purlin_wind_load q * purlin_spacing)
                     \<or> (pr_critical_case out = ''Dead + Live + Maintenance''
                        \<and> w = purlin_dead_load q + purlin_live_load q
                              + purlin_maintenance_load q * mass_to_force cfg / purlin_span q))
                  \<and> pr_moment out = (w + a) * (purlin_span q)\<^sup>2 / 8
                  \<and> pr_shear out = (w + a) * purlin_span q / 2
                  \<and> pr_load_type out = ''uniform'')"
  proof cases
    case dl
    with sh m c show ?thesis by (simp add: spec_purlin_shear_names ld)
  next
    case dlw
    with sh m c show ?thesis by (simp add: spec_purlin_shear_names ld)
  next
    case mp
    with sh m c show ?thesis by (simp add: spec_purlin_shear_names ld)
  next
    case dlm
    with sh m c show ?thesis by (simp add: spec_purlin_shear_names ld split: if_splits)
  qed
  with a show "\<exists>a. additional_loop (spec_helpers cfg) (purlin_span q) 0 (purlin_additional_loads q)
              = Inr a \<and>
         (if pr_critical_case out = ''Maintenance (point load)''
          then pr_moment out = purlin_maintenance_load q * mass_to_force cfg * purlin_span q / 4
               \<and> pr_shear out = purlin_maintenance_load q * mass_to_force cfg / 2
               \<and> pr_load_type out = ''point_center''
          else (\<exists>w. ((pr_critical_case out = ''Dead + Live''
                        \<and> w = purlin_dead_load q + purlin_live_load q)
                     \<or> (pr_critical_case out = ''Dead + Live + Wind''
                        \<and> w = purlin_dead_load q + purlin_live_load q
                              + purlin_wind_load q * purlin_spacing)
                     \<or> (pr_critical_case out = ''Dead + Live + Maintenance''
                        \<and> w = purlin_dead_load q + purlin_live_load q
                              + purlin_maintenance_load q * mass_to_force cfg / purlin_span q))
                  \<and> pr_moment out = (w + a) * (purlin_span q)\<^sup>2 / 8
                  \<and> pr_shear out = (w + a) * purlin_span q / 2
                  \<and> pr_load_type out = ''uniform''))"
    by blast
qed

text \<open>The concrete purlin, whose critical case is Dead + Live + Wind.\<close>

theorem additional_loads_in_uniform_cases_witness:
  "\<exists>out. purlin_calculate_results h_ex pr_ex = Inr out
     \<and> pr_critical_case out = ''Dead + Live + Wind''
     \<and> pr_moment out = (1 / 2 + 1 + 7 / 10 * purlin_spacing + 1 / 10) * 6\<^sup>2 / 8
     \<and> pr_shear out = (1 / 2 + 1 + 7 / 10 * purlin_spacing + 1 / 10) * 6 / 2
     \<and> calculate_shear_force h_ex 6 (1 / 2 + 1 + 7 / 10 * purlin_spacing + 1 / 10) ''uniform''
         = Inr (pr_shear out)"
  using additional_loads_in_uniform_cases [where h = h_ex and p = pr_ex and cfg = cfg_ex
      and q = pr_ex] pr_ex_run
  by (simp add: purlin_spacing_def h_ex_def spec_calculate_shear_force_def)

text \<open>
  The claim as stated fails where the maintenance point load governs: the purlin that
  carries the maintenance load and an additional load of 0.1 kN/m reports the same
  critical case, moment and shear as the same purlin without the additional load.
\<close>

theorem maintenance_case_omits_additional_counterexample:
  "map_sum id (\<lambda>out. (pr_critical_case out, pr_moment out, pr_shear out))
     (purlin_calculate_results h_ex pr_maintenance)
   = Inr (''Maintenance (point load)'', 2943 / 2000, 981 / 2000)
   \<and> map_sum id (\<lambda>out. (pr_critical_case out, pr_moment out, pr_shear out))
     (purlin_calculate_results h_ex (pr_maintenance\<lparr>purlin_additional_loads := []\<rparr>))
   = Inr (''Maintenance (point load)'', 2943 / 2000, 981 / 2000)
   \<and> additional_loop h_ex (purlin_span pr_maintenance) 0
       (purlin_additional_loads pr_maintenance) = Inr (1 / 10)"
proof -
  have proj: "map_sum id (\<lambda>out. (pr_critical_case out, pr_moment out, pr_shear out)) r =
      map_sum id (\<lambda>(m, v, c, t, res). (c, m, v)) (map_sum id purlin_computed r)" for r
    by (cases r) (simp_all add: purlin_computed_def)
  have same: "pr_maintenance\<lparr>purlin_additional_loads :=
        [\<lparr>load_value = 1 / 10, load_unit = unit_kN_m, load_case = ''Case A''\<rparr>]\<rparr>
      = pr_maintenance"
    by (simp add: pr_maintenance_def pr_ex_def)
  have with_load: "map_sum id purlin_computed (purlin_calculate_results h_ex pr_maintenance) =
     Inr (2943 / 2000, 981 / 2000, ''Maintenance (point load)'', ''point_center'',
          check_section cfg_ex 240 (2943 / 2000) 6 ''point_center'' ''egyptian code''
            ''Channel'' sec_small)"
    using pr_maintenance_computed
      [of "[\<lparr>load_value = 1 / 10, load_unit = unit_kN_m, load_case = ''Case A''\<rparr>]"]
    by (simp add: same)
  have loop: "additional_loop h_ex (purlin_span pr_maintenance) 0
       (purlin_additional_loads pr_maintenance) = Inr (1 / 10)"
    by (simp add: pr_maintenance_simps unit_kN_m_facts h_ex_def)
  show ?thesis
    by (simp add: proj with_load pr_maintenance_computed loop)
qed

subsection \<open>C4: the overall status\<close>

text \<open>
  Claim C4. With the selector as the specification describes it, in the result of every
  design run of either page the overall status is Safe if and only if the capacity check,
  both axes of the compactness check, the buckling check and the deflection check report
  Safe, where the buckling status \<^verbatim>\<open>"Cannot determine - missing section properties"\<close>
  counts as Safe.
\<close>

theorem overall_status_iff_all_safe:
  "(\<forall>out. floor_calculate_results (spec_helpers cfg) s = Inr out \<longrightarrow>
      (overall_status (fb_results out) = Safe) = reports_all_safe (fb_results out))
   \<and> (\<forall>out. purlin_calculate_results (spec_helpers cfg) p = Inr out \<longrightarrow>
      (overall_status (pr_results out) = Safe) = reports_all_safe (pr_results out))"
proof (intro conjI allI impI)
  fix out
  assume "floor_calculate_results (spec_helpers cfg) s = Inr out"
  then have "spec_select_optimal_section cfg (fb_moment out) (fb_span s) ''uniform''
           (fb_steel_grade s) (lower (fb_design_code s)) ''I-Beam'' = Inr (fb_results out)"
    by (elim floor_run_Inr) simp
  then show "(overall_status (fb_results out) = Safe) = reports_all_safe (fb_results out)"
    by (rule spec_select_optimal_section_verdict)
next
  fix out
  assume "purlin_calculate_results (spec_helpers cfg) p = Inr out"
  then have "spec_select_optimal_section cfg (pr_moment out) (purlin_span p) (pr_load_type out)
           (purlin_steel_grade p) (lower (purlin_design_code p)) ''Channel'' = Inr (pr_results out)"
    by (elim purlin_run_Inr) simp
  then show "(overall_status (pr_results out) = Safe) = reports_all_safe (pr_results out)"
    by (rule spec_select_optimal_section_verdict)
qed

text \<open>Both concrete runs end Safe with all checks Safe.\<close>

theorem overall_status_iff_all_safe_witness:
  "\<exists>out pout. floor_calculate_results h_ex fb_ex = Inr out
     \<and> purlin_calculate_results h_ex pr_ex = Inr pout
     \<and> overall_status (fb_results out) = Safe \<and> reports_all_safe (fb_results out)
     \<and> overall_status (pr_results pout) = Safe \<and> reports_all_safe (pr_results pout)"
  using overall_status_iff_all_safe [of cfg_ex fb_ex pr_ex] fb_ex_run pr_ex_run
  by (simp add: check_large_25 check_small_channel_le_24 h_ex_def)

subsection \<open>C5: the exhausted catalogue\<close>

text \<open>
  Claim C5. When the steel grade is known, the pattern tag is one of the two patterns and
  the moment exceeds the (positive) bending capacity of every section of the table, the
  selector returns a result and does not fail: the result is the check of the last
  section of the table with the overall status set to Unsafe and the exhaustion flag set.
\<close>

theorem catalog_exhausted_returns_last:
  assumes "yield_stress cfg code grade = Some fy"
    and "load_type = ''uniform'' \<or> load_type = ''point_center''"
    and "sections_for cfg code section_type = (c, cs)"
    and "\<forall>x \<in> set (c # cs). 0 < Zx x * fy \<and> Zx x * fy < moment"
  shows "\<exists>r. spec_select_optimal_section cfg moment L load_type grade code section_type = Inr r
     \<and> r = (check_section cfg fy moment L load_type code section_type (last (c # cs)))
             \<lparr>overall_status := Unsafe, catalog_exhausted := True\<rparr>
     \<and> section_properties r = last (c # cs)
     \<and> overall_status r = Unsafe
     \<and> catalog_exhausted r"
proof -
  from assms(4) have "\<forall>x \<in> set (c # cs).
      overall_status (check_section cfg fy moment L load_type code section_type x) \<noteq> Safe"
    using over_capacity_unsafe by blast
  from select_loop_exhausted [OF this]
  have "spec_select_optimal_section cfg moment L load_type grade code section_type
      = Inr ((check_section cfg fy moment L load_type code section_type (last (c # cs)))
             \<lparr>overall_status := Unsafe, catalog_exhausted := True\<rparr>)"
    by (simp add: spec_select_optimal_section_returns [OF assms(1,2)] assms(3))
  then show ?thesis
    by (simp add: check_section_fields)
qed

text \<open>A moment of 1000 against the concrete table, whose capacities are 24 and 120.\<close>

theorem catalog_exhausted_returns_last_witness:
  "\<exists>r. spec_select_optimal_section cfg_ex 1000 5 ''uniform'' ''St37'' ''egyptian code'' ''I-Beam''
          = Inr r
     \<and> section_properties r = sec_large \<and> overall_status r = Unsafe \<and> catalog_exhausted r"
proof -
  have caps: "\<forall>x \<in> set (sec_small # [sec_large]). 0 < Zx x * 240 \<and> Zx x * 240 < 1000"
    by (simp add: sec_small_def sec_large_def)
  from catalog_exhausted_returns_last [of cfg_ex "''egyptian code''" "''St37''" 240 "''uniform''"
      "''I-Beam''" sec_small "[sec_large]" 1000 5, OF _ _ _ caps]
  show ?thesis
    by (simp add: cfg_ex_simps)
qed

subsection \<open>C6: the deflection limit of the two member types\<close>

text \<open>
  Claim C6. For the same span and the same actual deflection, the deflection check of a
  floor beam (section family I-Beam) allows span / 360 and the one of a purlin (section
  family Channel) allows span / 240; both are the same check with the ratio as its only
  parameter, so the floor beam's utilization is 3/2 of the purlin's. With the selector as
  the specification describes it, the deflection check in the result of every run of the
  floor-beam page is the one with ratio 360, and in every run of the purlin page the one
  with ratio 240.
\<close>

theorem deflection_limit_by_member:
  "allowable_deflection (check_deflection ''I-Beam'' L d) = L / 360
   \<and> allowable_deflection (check_deflection ''Channel'' L d) = L / 240
   \<and> check_deflection ''I-Beam'' L d = deflection_check_with 360 L d
   \<and> check_deflection ''Channel'' L d = deflection_check_with 240 L d
   \<and> defl_utilization (deflection_check_with 360 L d)
       = 3 / 2 * defl_utilization (deflection_check_with 240 L d)
   \<and> (\<forall>out. floor_calculate_results (spec_helpers cfg) s = Inr out \<longrightarrow>
        deflection_check (fb_results out)
          = deflection_check_with 360 (fb_span s) (deflection (fb_results out)))
   \<and> (\<forall>out. purlin_calculate_results (spec_helpers cfg) p = Inr out \<longrightarrow>
        deflection_check (pr_results out)
          = deflection_check_with 240 (purlin_span p) (deflection (pr_results out)))"
proof (intro conjI allI impI)
  fix out
  assume "floor_calculate_results (spec_helpers cfg) s = Inr out"
  then have "spec_select_optimal_section cfg (fb_moment out) (fb_span s) ''uniform''
           (fb_steel_grade s) (lower (fb_design_code s)) ''I-Beam'' = Inr (fb_results out)"
    by (elim floor_run_Inr) simp
  then have "deflection_check (fb_results out)
      = check_deflection ''I-Beam'' (fb_span s) (deflection (fb_results out))"
    by (rule spec_select_optimal_section_deflection)
  then show "deflection_check (fb_results out)
          = deflection_check_with 360 (fb_span s) (deflection (fb_results out))"
    by (simp add: check_deflection_def deflection_limit_def)
next
  fix out
  assume "purlin_calculate_results (spec_helpers cfg) p = Inr out"
  then have "spec_select_optimal_section cfg (pr_moment out) (purlin_span p) (pr_load_type out)
           (purlin_steel_grade p) (lower (purlin_design_code p)) ''Channel'' = Inr (pr_results out)"
    by (elim purlin_run_Inr) simp
  then have "deflection_check (pr_results out)
      = check_deflection ''Channel'' (purlin_span p) (deflection (pr_results out))"
    by (rule spec_select_optimal_section_deflection)
  then show "deflection_check (pr_results out)
          = deflection_check_with 240 (purlin_span p) (deflection (pr_results out))"
    by (simp add: check_deflection_def deflection_limit_def)
qed (simp_all add: check_deflection_def deflection_limit_def deflection_check_with_def Let_def)

text \<open>The allowable deflections of the two concrete runs.\<close>

theorem deflection_limit_by_member_witness:
  "\<exists>out pout. floor_calculate_results h_ex fb_ex = Inr out
     \<and> purlin_calculate_results h_ex pr_ex = Inr pout
     \<and> allowable_deflection (deflection_check (fb_results out)) = 5 / 360
     \<and> allowable_deflection (deflection_check (pr_results pout)) = 6 / 240"
  using deflection_limit_by_member [of 5 0 cfg_ex fb_ex pr_ex] fb_ex_run pr_ex_run
  by (simp add: fb_ex_simps pr_ex_simps deflection_check_with_def Let_def h_ex_def)

subsection \<open>C7: a span of zero\<close>

text \<open>
  Claim C7, as amended. The pages make no test of the span. Whatever the imported
  functions do, with a span of zero the floor-beam page fails with \<open>ZeroDivisionError\<close>
  when the supported-beam reaction is positive, or when the first additional load converts
  and its unit holds no \<^verbatim>\<open>m\<close> (kN or kg); the purlin page fails with
  \<open>ZeroDivisionError\<close> in the latter case once the wind load has been computed. No result
  is returned.
\<close>

theorem zero_span_division_error:
  "(fb_span s = 0
      \<and> (0 < fb_supported_beam_reaction s
         \<or> (fb_additional_loads s = l # ls
            \<and> convert_to_kn h (load_value l) (load_unit l) = Inr v
            \<and> \<not> str_in ''m'' (lower (load_unit l))))
    \<longrightarrow> floor_calculate_results h s = Inl ZeroDivisionError)
   \<and> (purlin_span p = 0
        \<and> calculate_wind_load h (purlin_span p) (purlin_wind_load p) purlin_spacing = Inr wl
        \<and> purlin_additional_loads p = l # ls
        \<and> convert_to_kn h (load_value l) (load_unit l) = Inr v
        \<and> \<not> str_in ''m'' (lower (load_unit l))
    \<longrightarrow> purlin_calculate_results h p = Inl ZeroDivisionError)"
proof (intro conjI impI)
  assume a: "fb_span s = 0
      \<and> (0 < fb_supported_beam_reaction s
         \<or> (fb_additional_loads s = l # ls
            \<and> convert_to_kn h (load_value l) (load_unit l) = Inr v
            \<and> \<not> str_in ''m'' (lower (load_unit l))))"
  show "floor_calculate_results h s = Inl ZeroDivisionError"
  proof (cases "0 < fb_supported_beam_reaction s")
    case True
    with a have "floor_dead_load s = Inl ZeroDivisionError"
      by (simp add: floor_dead_load_def)
    then show ?thesis by (simp add: floor_calculate_results_def)
  next
    case False
    then have d: "floor_dead_load s = Inr (fb_dead_load s)"
      by (simp add: floor_dead_load_def)
    from False a have "additional_loop h (fb_span s) 0 (fb_additional_loads s) = Inl ZeroDivisionError"
      using additional_loop_zero_span [of h l v 0 ls] by auto
    with d show ?thesis by (simp add: floor_calculate_results_def)
  qed
next
  assume a: "purlin_span p = 0
        \<and> calculate_wind_load h (purlin_span p) (purlin_wind_load p) purlin_spacing = Inr wl
        \<and> purlin_additional_loads p = l # ls
        \<and> convert_to_kn h (load_value l) (load_unit l) = Inr v
        \<and> \<not> str_in ''m'' (lower (load_unit l))"
  then have "additional_loop h (purlin_span p) 0 (purlin_additional_loads p) = Inl ZeroDivisionError"
    using additional_loop_zero_span [of h l v 0 ls] by auto
  moreover from a have
    "calculate_wind_load h (purlin_span p) (purlin_wind_load p) purlin_spacing = Inr wl"
    by (elim conjE)
  ultimately show "purlin_calculate_results h p = Inl ZeroDivisionError"
    by (simp add: purlin_calculate_results_def)
qed

text \<open>The two concrete inputs with a span of zero.\<close>

theorem zero_span_division_error_witness:
  "floor_calculate_results h_ex fb_zero_span = Inl ZeroDivisionError
   \<and> purlin_calculate_results h_ex pr_zero_span = Inl ZeroDivisionError"
  using zero_span_division_error [where s = fb_zero_span and h = h_ex and p = pr_zero_span
      and l = "\<lparr>load_value = 10, load_unit = unit_kN, load_case = ''Case A''\<rparr>"
      and ls = "[]" and v = 10 and wl = "purlin_wind_load pr_zero_span * purlin_spacing"]
  by (simp add: fb_zero_span_simps pr_zero_span_simps unit_kN_facts h_ex_def
      spec_calculate_wind_load_def)

text \<open>
  The claim as stated fails on the concrete floor beam with a span of zero: the failure is
  the division error of the page, not \<open>InvalidInput\<close>.
\<close>

theorem zero_span_not_invalid_input_counterexample:
  "fb_span fb_zero_span \<le> 0
   \<and> floor_calculate_results h_ex fb_zero_span = Inl ZeroDivisionError
   \<and> floor_calculate_results h_ex fb_zero_span \<noteq> Inl InvalidInput"
  by (simp add: floor_calculate_results_def floor_dead_load_def fb_zero_span_simps)

subsection \<open>C8: the chord angle\<close>

text \<open>
  Claim C8, as amended. The chord angle is read from the session and echoed in the
  stored dictionary only; it is not passed to the selector. Whatever the imported
  functions do, two runs of a page that differ only in the chord angle return the same
  total load, moment, shear, critical case and selector result, the buckling check
  included, or fail in the same way.
\<close>

theorem chord_angle_echo_only:
  "map_sum id floor_computed (floor_calculate_results h (s\<lparr>fb_chord_angle := a\<rparr>))
     = map_sum id floor_computed (floor_calculate_results h s)
   \<and> map_sum id purlin_computed (purlin_calculate_results h (p\<lparr>purlin_chord_angle := b\<rparr>))
     = map_sum id purlin_computed (purlin_calculate_results h p)"
  by (auto intro!: floor_run_echo_only purlin_run_echo_only list_all2_same_value_unit_refl)

text \<open>The two concrete runs with another chord angle.\<close>

theorem chord_angle_echo_only_witness:
  "map_sum id floor_computed
     (floor_calculate_results h_ex (fb_ex\<lparr>fb_chord_angle := 30\<rparr>))
   = Inr (8, 25, 20,
          check_section cfg_ex 240 25 5 ''uniform'' ''egyptian code'' ''I-Beam'' sec_large)
   \<and> map_sum id purlin_computed
     (purlin_calculate_results h_ex (pr_ex\<lparr>purlin_chord_angle := 0\<rparr>))
   = Inr (477 / 40, 159 / 20, ''Dead + Live + Wind'', ''uniform'',
          check_section cfg_ex 240 (477 / 40) 6 ''uniform'' ''egyptian code'' ''Channel''
            sec_small)"
  using chord_angle_echo_only [where h = h_ex and s = fb_ex and a = 30 and p = pr_ex and b = 0]
  by (simp add: fb_ex_run pr_ex_run floor_computed_def purlin_computed_def)

text \<open>
  The claim as stated says that some pair of runs differing only in the chord angle has
  different buckling checks; there is no such pair, for either page and for any behaviour
  of the imported functions.
\<close>

theorem chord_angle_ltb_counterexample:
  "\<not> (\<exists>h s a b.
         map_sum id (\<lambda>out. ltb_check (fb_results out))
           (floor_calculate_results h (s\<lparr>fb_chord_angle := a\<rparr>))
       \<noteq> map_sum id (\<lambda>out. ltb_check (fb_results out))
           (floor_calculate_results h (s\<lparr>fb_chord_angle := b\<rparr>)))
   \<and> \<not> (\<exists>h p a b.
         map_sum id (\<lambda>out. ltb_check (pr_results out))
           (purlin_calculate_results h (p\<lparr>purlin_chord_angle := a\<rparr>))
       \<noteq> map_sum id (\<lambda>out. ltb_check (pr_results out))
           (purlin_calculate_results h (p\<lparr>purlin_chord_angle := b\<rparr>)))"
proof -
  have f: "map_sum id floor_computed (floor_calculate_results h (s\<lparr>fb_chord_angle := a\<rparr>))
         = map_sum id floor_computed (floor_calculate_results h (s\<lparr>fb_chord_angle := b\<rparr>))"
    for h s a b
    by (rule floor_run_echo_only) (simp_all add: list_all2_same_value_unit_refl)
  have p: "map_sum id purlin_computed (purlin_calculate_results h (s\<lparr>purlin_chord_angle := a\<rparr>))
         = map_sum id purlin_computed (purlin_calculate_results h (s\<lparr>purlin_chord_angle := b\<rparr>))"
    for h s a b
    by (rule purlin_run_echo_only) (simp_all add: list_all2_same_value_unit_refl)
  have fl: "map_sum id (\<lambda>out. ltb_check (fb_results out))
             (floor_calculate_results h (s\<lparr>fb_chord_angle := a\<rparr>))
          = map_sum id (\<lambda>out. ltb_check (fb_results out))
             (floor_calculate_results h (s\<lparr>fb_chord_angle := b\<rparr>))" for h s a b
    unfolding floor_ltb_of_computed by (rule arg_cong [OF f])
  have pl: "map_sum id (\<lambda>out. ltb_check (pr_results out))
             (purlin_calculate_results h (s\<lparr>purlin_chord_angle := a\<rparr>))
          = map_sum id (\<lambda>out. ltb_check (pr_results out))
             (purlin_calculate_results h (s\<lparr>purlin_chord_angle := b\<rparr>))" for h s a b
    unfolding purlin_ltb_of_computed by (rule arg_cong [OF p])
  from fl pl show ?thesis by blast
qed

subsection \<open>C9: the floor beam is analysed under the uniform pattern only\<close>

text \<open>
  Claim C9. Whatever the imported functions do, whenever the floor-beam page returns, its
  total load is the dead load, plus the supported-beam reaction divided by the span when
  that reaction is positive, plus the floor cover and live loads times the tributary
  width, plus the additional loads; moment and shear are what \<^verbatim>\<open>calculate_moment\<close> and
  \<^verbatim>\<open>calculate_shear_force\<close> return for that total load under the tag \<^verbatim>\<open>uniform\<close>, and
  the selector is called with the same tag. With the imported functions as the
  specification describes them, the page returns whenever the span is not zero, every
  additional load has a recognised unit and the steel grade is known, and then the moment
  is \<open>w L\<^sup>2 / 8\<close> and the shear \<open>w L / 2\<close> of the total load \<open>w\<close>.
\<close>

theorem floor_beam_uniform_pattern:
  "(\<forall>out. floor_calculate_results h s = Inr out \<longrightarrow>
      (\<exists>a. additional_loop h (fb_span s) 0 (fb_additional_loads s) = Inr a \<and>
           fb_total_load out =
             fb_dead_load s
             + (if 0 < fb_supported_beam_reaction s
                then fb_supported_beam_reaction s / fb_span s else 0)
             + fb_floor_cover_load s * beam_width + fb_live_load s * beam_width + a)
      \<and> calculate_moment h (fb_span s) (fb_total_load out) ''uniform'' = Inr (fb_moment out)
      \<and> calculate_shear_force h (fb_span s) (fb_total_load out) ''uniform'' = Inr (fb_shear out)
      \<and> select_optimal_section h (fb_moment out) (fb_span s) ''uniform''
           (fb_steel_grade s) (lower (fb_design_code s)) ''I-Beam'' = Inr (fb_results out))
   \<and> (fb_span t \<noteq> 0
        \<and> list_all (\<lambda>l. recognised_unit (load_unit l)) (fb_additional_loads t)
        \<and> yield_stress cfg (lower (fb_design_code t)) (fb_steel_grade t) \<noteq> None
      \<longrightarrow> (\<exists>out. floor_calculate_results (spec_helpers cfg) t = Inr out
                \<and> fb_moment out = fb_total_load out * (fb_span t)\<^sup>2 / 8
                \<and> fb_shear out = fb_total_load out * fb_span t / 2))"
proof (intro conjI allI impI)
  fix out
  assume run: "floor_calculate_results h s = Inr out"
  then obtain d a where d: "floor_dead_load s = Inr d"
    and a: "additional_loop h (fb_span s) 0 (fb_additional_loads s) = Inr a"
    and t: "fb_total_load out =
              d + fb_floor_cover_load s * beam_width + fb_live_load s * beam_width + a"
    and m: "calculate_moment h (fb_span s) (fb_total_load out) ''uniform'' = Inr (fb_moment out)"
    and v: "calculate_shear_force h (fb_span s) (fb_total_load out) ''uniform'' = Inr (fb_shear out)"
    and r: "select_optimal_section h (fb_moment out) (fb_span s) ''uniform''
           (fb_steel_grade s) (lower (fb_design_code s)) ''I-Beam'' = Inr (fb_results out)"
    by (rule floor_run_Inr)
  from a t floor_dead_load_Inr [OF d]
  show "\<exists>a. additional_loop h (fb_span s) 0 (fb_additional_loads s) = Inr a \<and>
           fb_total_load out =
             fb_dead_load s
             + (if 0 < fb_supported_beam_reaction s
                then fb_supported_beam_reaction s / fb_span s else 0)
             + fb_floor_cover_load s * beam_width + fb_live_load s * beam_width + a"
    by simp
  show "calculate_moment h (fb_span s) (fb_total_load out) ''uniform'' = Inr (fb_moment out)"
    by (rule m)
  show "calculate_shear_force h (fb_span s) (fb_total_load out) ''uniform'' = Inr (fb_shear out)"
    by (rule v)
  show "select_optimal_section h (fb_moment out) (fb_span s) ''uniform''
           (fb_steel_grade s) (lower (fb_design_code s)) ''I-Beam'' = Inr (fb_results out)"
    by (rule r)
next
  assume "fb_span t \<noteq> 0
        \<and> list_all (\<lambda>l. recognised_unit (load_unit l)) (fb_additional_loads t)
        \<and> yield_stress cfg (lower (fb_design_code t)) (fb_steel_grade t) \<noteq> None"
  then obtain out where run: "floor_calculate_results (spec_helpers cfg) t = Inr out"
    using floor_calculate_results_returns by blast
  then have "calculate_moment (spec_helpers cfg) (fb_span t) (fb_total_load out) ''uniform''
        = Inr (fb_moment out)"
    and "calculate_shear_force (spec_helpers cfg) (fb_span t) (fb_total_load out) ''uniform''
        = Inr (fb_shear out)"
    by (auto elim: floor_run_Inr)
  then have "fb_moment out = fb_total_load out * (fb_span t)\<^sup>2 / 8"
    and "fb_shear out = fb_total_load out * fb_span t / 2"
    by (simp_all add: spec_calculate_moment_def spec_calculate_shear_force_def)
  with run show "\<exists>out. floor_calculate_results (spec_helpers cfg) t = Inr out
                \<and> fb_moment out = fb_total_load out * (fb_span t)\<^sup>2 / 8
                \<and> fb_shear out = fb_total_load out * fb_span t / 2"
    by blast
qed

text \<open>The page run on the concrete floor beam.\<close>

theorem floor_beam_uniform_pattern_witness:
  "\<exists>out. floor_calculate_results h_ex fb_ex = Inr out \<and> fb_total_load out = 8
     \<and> fb_moment out = 25 \<and> fb_shear out = 20
     \<and> calculate_moment h_ex 5 8 ''uniform'' = Inr 25"
proof -
  note inst = floor_beam_uniform_pattern [where h = h_ex and s = fb_ex and t = fb_ex
      and cfg = cfg_ex]
  have ok: "fb_span fb_ex \<noteq> 0
        \<and> list_all (\<lambda>l. recognised_unit (load_unit l)) (fb_additional_loads fb_ex)
        \<and> yield_stress cfg_ex (lower (fb_design_code fb_ex)) (fb_steel_grade fb_ex) \<noteq> None"
    by (simp add: fb_ex_simps unit_kN_facts cfg_ex_simps)
  with inst obtain out where run: "floor_calculate_results h_ex fb_ex = Inr out"
    and mv: "fb_moment out = fb_total_load out * (fb_span fb_ex)\<^sup>2 / 8"
      "fb_shear out = fb_total_load out * fb_span fb_ex / 2"
    unfolding h_ex_def by blast
  with inst obtain a where
    a: "additional_loop h_ex (fb_span fb_ex) 0 (fb_additional_loads fb_ex) = Inr a"
    and t: "fb_total_load out =
             fb_dead_load fb_ex
             + (if 0 < fb_supported_beam_reaction fb_ex
                then fb_supported_beam_reaction fb_ex / fb_span fb_ex else 0)
             + fb_floor_cover_load fb_ex * beam_width + fb_live_load fb_ex * beam_width + a"
    and m: "calculate_moment h_ex (fb_span fb_ex) (fb_total_load out) ''uniform''
             = Inr (fb_moment out)"
    by blast
  from a have "a = 2"
    by (simp add: fb_ex_additional fb_ex_simps(1) h_ex_def)
  with t have total: "fb_total_load out = 8"
    by (simp add: fb_ex_simps beam_width_def)
  with mv have "fb_moment out = 25" "fb_shear out = 20"
    by (simp_all add: fb_ex_simps)
  with run total m show ?thesis
    by (auto simp: fb_ex_simps)
qed

subsection \<open>C10: the case of an additional load\<close>

text \<open>
  Claim C10. Whatever the imported functions do, two lists of additional loads that
  agree, entry by entry, in value and unit (and so differ at most in the \<^verbatim>\<open>case\<close>
  entries) give the same total load, moment, shear, critical case, load type and selector
  result, and the same failure if any, in both pages.
\<close>

theorem additional_load_case_ignored:
  assumes "list_all2 same_value_unit ls ls'"
  shows "map_sum id floor_computed (floor_calculate_results h (s\<lparr>fb_additional_loads := ls\<rparr>))
       = map_sum id floor_computed (floor_calculate_results h (s\<lparr>fb_additional_loads := ls'\<rparr>))
     \<and> map_sum id purlin_computed
         (purlin_calculate_results h (p\<lparr>purlin_additional_loads := ls\<rparr>))
       = map_sum id purlin_computed
         (purlin_calculate_results h (p\<lparr>purlin_additional_loads := ls'\<rparr>))"
  using assms by (auto intro!: floor_run_echo_only purlin_run_echo_only)

text \<open>The two concrete runs with the case of the additional load changed to Case B.\<close>

theorem additional_load_case_ignored_witness:
  "map_sum id floor_computed
     (floor_calculate_results h_ex
        (fb_ex\<lparr>fb_additional_loads :=
           [\<lparr>load_value = 10, load_unit = unit_kN, load_case = ''Case B''\<rparr>]\<rparr>))
   = Inr (8, 25, 20,
          check_section cfg_ex 240 25 5 ''uniform'' ''egyptian code'' ''I-Beam'' sec_large)
   \<and> map_sum id purlin_computed
     (purlin_calculate_results h_ex
        (pr_ex\<lparr>purlin_additional_loads :=
           [\<lparr>load_value = 1 / 10, load_unit = unit_kN_m, load_case = ''Case B''\<rparr>]\<rparr>))
   = Inr (477 / 40, 159 / 20, ''Dead + Live + Wind'', ''uniform'',
          check_section cfg_ex 240 (477 / 40) 6 ''uniform'' ''egyptian code'' ''Channel''
            sec_small)"
proof -
  have f: "list_all2 same_value_unit
      [\<lparr>load_value = 10, load_unit = unit_kN, load_case = ''Case B''\<rparr>]
      (fb_additional_loads fb_ex)"
    by (simp add: fb_ex_simps same_value_unit_def)
  have p: "list_all2 same_value_unit
      [\<lparr>load_value = 1 / 10, load_unit = unit_kN_m, load_case = ''Case B''\<rparr>]
      (purlin_additional_loads pr_ex)"
    by (simp add: pr_ex_simps same_value_unit_def)
  have fb: "fb_ex\<lparr>fb_additional_loads := fb_additional_loads fb_ex\<rparr> = fb_ex"
    and pr: "pr_ex\<lparr>purlin_additional_loads := purlin_additional_loads pr_ex\<rparr> = pr_ex"
    by simp_all
  from additional_load_case_ignored [OF f, of h_ex fb_ex pr_ex]
    additional_load_case_ignored [OF p, of h_ex fb_ex pr_ex]
  show ?thesis
    by (simp add: fb pr fb_ex_run pr_ex_run floor_computed_def purlin_computed_def)
qed

end
